theory Spec2Isabelle
  imports Complex_Main "HOL-Library.AList"
begin

section \<open>Data model\<close>

text \<open>
  A shallow embedding of \<^verbatim>\<open>Preprocessing/preprocessing_pipeline.py\<close> (class
  \<^verbatim>\<open>ESGPreprocessingPipeline\<close>). Float values are reals, and every floating-point
  computation on them is left to the library the pipeline calls; a missing entry
  (\<^verbatim>\<open>NaN\<close>/\<^verbatim>\<open>None\<close>, what \<^verbatim>\<open>isnull\<close> reports) is \<open>None\<close>.
  Where a statement depends on it, the column labels of a dataframe are assumed distinct.
\<close>

datatype val = Num real | Str string

type_synonym cell = "val option"

text \<open>
  The dtype of a column: a numeric dtype, which \<^verbatim>\<open>select_dtypes(include=[np.number])\<close>
  selects, with its name (\<^verbatim>\<open>float64\<close>, \<^verbatim>\<open>Int64\<close>, ...); the two dtypes that
  \<^verbatim>\<open>select_dtypes(include=['object', 'category'])\<close> selects, a categorical one with its
  declared categories; and every other dtype (bool, datetime, ...) with its name.
\<close>

datatype dtype = Number string | Object | Category "val list" | Other string

fun is_number :: "dtype \<Rightarrow> bool" where
  "is_number (Number name) = True"
| "is_number Object = False"
| "is_number (Category categories) = False"
| "is_number (Other name) = False"

fun is_object_or_category :: "dtype \<Rightarrow> bool" where
  "is_object_or_category (Number name) = False"
| "is_object_or_category Object = True"
| "is_object_or_category (Category categories) = True"
| "is_object_or_category (Other name) = False"

record column =
  label :: string
  dtype :: dtype
  cells :: "cell list"

record dataframe =
  index :: "int list"
  columns :: "column list"

text \<open>A two-dimensional \<^verbatim>\<open>ndarray\<close>, stored by columns; its shape is \<open>(nrows, length cols)\<close>.\<close>

record ndarray =
  nrows :: nat
  cols :: "cell list list"

datatype error =
  ValueError string | KeyError string | TypeError string | IndexError | AttributeError
  | UnboundLocalError

text \<open>Python dictionaries keep insertion order: association lists, written with \<open>AList.update\<close>.\<close>

type_synonym ('k, 'v) dict = "('k \<times> 'v) list"

definition dict_get :: "(string, 'v) dict \<Rightarrow> string \<Rightarrow> error + 'v" where
  "dict_get d k = (case map_of d k of None \<Rightarrow> Inl (KeyError k) | Some v \<Rightarrow> Inr v)"

subsection \<open>Configuration\<close>

text \<open>\<^verbatim>\<open>pca_n_components\<close> is a float or an int (\<^verbatim>\<open>isinstance(n_components, float)\<close>).\<close>

datatype number = PyFloat real | PyInt int

record preprocessing =
  missing_strategy_numerical :: string
  missing_strategy_categorical :: string
  scaling_method :: string
  apply_power_transform :: bool
  power_transform_method :: string
  skewness_threshold :: real
  categorical_encoding :: string
  drop_first_category :: bool

record dimensionality_reduction =
  apply_pca :: bool
  pca_n_components :: number
  pca_min_components :: int
  apply_tsne :: bool
  tsne_n_components :: int
  tsne_perplexity :: int
  tsne_random_state :: int

record validation =
  check_missing_values :: bool
  check_feature_ranges :: bool
  check_shape_consistency :: bool

record config =
  preprocessing :: preprocessing
  dimensionality_reduction :: dimensionality_reduction
  feature_categories :: "(string, string list) dict"
  validation :: validation

subsection \<open>Processing log and logger\<close>

text \<open>
  The detail string of a log entry is an f-string; it is kept as its parts, the literal
  text and the interpolated values, in order. The timestamp of an entry is left out.
\<close>

datatype fpart = S string | N int | F3 real | L "string list"

record log_entry =
  step :: string
  details :: "fpart list"

datatype level = INFO | WARNING

subsection \<open>Fitted stage objects and the numerical library\<close>

datatype sk_class =
  PowerTransformer | StandardScaler | RobustScaler | MinMaxScaler | OneHotEncoder | PCA | TSNE

text \<open>A fitted estimator: its class and its fitted parameters, of an opaque type \<open>'f\<close>.\<close>

type_synonym 'f estimator = "sk_class \<times> 'f"

text \<open>
  The statistical primitives are not part of the repository (pandas, numpy, scipy,
  scikit-learn); the pipeline is modelled over an arbitrary library \<open>lib\<close> providing them.
  Each statistic of a column, each fit and each transform may raise. Of pandas the library
  also says whether it runs with copy-on-write (\<^verbatim>\<open>mode.copy_on_write\<close>), and, for a
  column of a dtype other than a categorical one, which error, if any, filling it with a
  value raises (\<open>fillna_raises\<close>) and which dtype the column has after the fill
  (\<open>fillna_dtype\<close>: a value that the dtype cannot hold widens it). The cumulative sums
  and the sum that numpy computes in floating point are the library's \<open>np_cumsum\<close> and
  \<open>np_sum\<close>: the model does not take them to be exact.
\<close>

record 'f library =
  copy_on_write :: bool
  Series_median :: "column \<Rightarrow> error + cell"
  Series_mean :: "column \<Rightarrow> error + cell"
  Series_mode :: "column \<Rightarrow> error + val list"
  fillna_raises :: "dtype \<Rightarrow> cell \<Rightarrow> error option"
  fillna_dtype :: "dtype \<Rightarrow> cell \<Rightarrow> dtype"
  DataFrame_mean :: "cell list \<Rightarrow> cell"
  DataFrame_std :: "cell list \<Rightarrow> cell"
  np_cumsum :: "real list \<Rightarrow> real list"
  np_sum :: "real list \<Rightarrow> real"
  skew :: "cell list \<Rightarrow> real option"
  PowerTransformer_fit_transform :: "string \<Rightarrow> ndarray \<Rightarrow> error + (ndarray \<times> 'f)"
  PowerTransformer_transform :: "'f \<Rightarrow> ndarray \<Rightarrow> error + ndarray"
  scaler_fit_transform :: "sk_class \<Rightarrow> ndarray \<Rightarrow> error + (ndarray \<times> 'f)"
  scaler_transform :: "'f estimator \<Rightarrow> ndarray \<Rightarrow> error + ndarray"
  OneHotEncoder_fit_transform ::
    "bool \<Rightarrow> dataframe \<Rightarrow> string list \<Rightarrow> error + (ndarray \<times> string list \<times> 'f)"
  OneHotEncoder_transform :: "'f \<Rightarrow> dataframe \<Rightarrow> error + ndarray"
  PCA_fit :: "ndarray \<Rightarrow> error + 'f"
  explained_variance_ratio :: "'f \<Rightarrow> real list"
  PCA_fit_transform :: "int \<Rightarrow> ndarray \<Rightarrow> error + (ndarray \<times> 'f)"
  PCA_transform :: "'f \<Rightarrow> ndarray \<Rightarrow> error + ndarray"
  TSNE_fit_transform :: "int \<Rightarrow> int \<Rightarrow> int \<Rightarrow> ndarray \<Rightarrow> error + (ndarray \<times> 'f)"

subsection \<open>The pipeline object and its environment\<close>

datatype 'f pickle =
  PipelineData config "(string, string list) dict" "log_entry list" bool
  | Component "'f estimator"

text \<open>
  The state a call runs in: the attributes of \<^verbatim>\<open>self\<close>, the dataframe objects that
  exist (a reference is a position in \<open>heap\<close>), the records of the module's logger, and
  the files and directories on disk.
\<close>

text \<open>The attribute \<^verbatim>\<open>feature_names_\<close> is the field \<open>self_feature_names\<close>.\<close>

record 'f world =
  config :: config
  self_feature_names :: "(string, string list) dict"
  preprocessing_log :: "log_entry list"
  fitted :: bool
  power_transformer :: "'f estimator option"
  scaler :: "'f estimator option"
  categorical_encoder :: "'f estimator option"
  pca :: "'f estimator option"
  tsne :: "'f estimator option"
  heap :: "dataframe list"
  logger :: "(level \<times> fpart list) list"
  files :: "(string, 'f pickle) dict"
  dirs :: "string list"

type_synonym ref = nat

text \<open>A method call: it reads and updates the world and returns a value or raises.\<close>

type_synonym ('f, 'a) py = "'f world \<Rightarrow> 'f world \<times> (error + 'a)"

definition py_return :: "'a \<Rightarrow> ('f, 'a) py" where
  "py_return x w = (w, Inr x)"

definition py_raise :: "error \<Rightarrow> ('f, 'a) py" where
  "py_raise e w = (w, Inl e)"

definition py_lift :: "error + 'a \<Rightarrow> ('f, 'a) py" where
  "py_lift r w = (w, r)"

definition py_bind :: "('f, 'a) py \<Rightarrow> ('a \<Rightarrow> ('f, 'b) py) \<Rightarrow> ('f, 'b) py" where
  "py_bind m f w = (case m w of (w', Inl e) \<Rightarrow> (w', Inl e) | (w', Inr a) \<Rightarrow> f a w')"

definition py_exec :: "('f world \<Rightarrow> 'f world) \<Rightarrow> ('f, unit) py" where
  "py_exec g w = (g w, Inr ())"

definition py_seq :: "('f, unit) py \<Rightarrow> ('f, 'b) py \<Rightarrow> ('f, 'b) py" where
  "py_seq m k = py_bind m (\<lambda>_. k)"

section \<open>Dataframe and array operations used by the pipeline\<close>

definition isnull_sum :: "cell list \<Rightarrow> nat" where
  "isnull_sum xs = length (filter (\<lambda>c. c = None) xs)"

text \<open>\<^verbatim>\<open>df.isnull().sum().sum()\<close>\<close>

definition total_missing :: "dataframe \<Rightarrow> nat" where
  "total_missing df = sum_list (map (\<lambda>c. isnull_sum (cells c)) (columns df))"

text \<open>\<^verbatim>\<open>s.fillna(v)\<close>; with \<open>v\<close> itself \<^verbatim>\<open>NaN\<close> nothing is filled.\<close>

definition fillna :: "cell \<Rightarrow> cell list \<Rightarrow> cell list" where
  "fillna v xs = map (\<lambda>c. case c of None \<Rightarrow> v | Some x \<Rightarrow> Some x) xs"

text \<open>\<^verbatim>\<open>df[col]\<close> for one label.\<close>

definition getitem :: "dataframe \<Rightarrow> string \<Rightarrow> error + column" where
  "getitem df col =
     (case find (\<lambda>c. label c = col) (columns df) of
        None \<Rightarrow> Inl (KeyError col)
      | Some c \<Rightarrow> Inr c)"

text \<open>\<^verbatim>\<open>df[names]\<close> for a list of labels: the named columns in the order of \<open>names\<close>.\<close>

fun getitems_cols :: "dataframe \<Rightarrow> string list \<Rightarrow> error + column list" where
  "getitems_cols df [] = Inr []"
| "getitems_cols df (n # ns) =
     (case getitem df n of
        Inl e \<Rightarrow> Inl e
      | Inr c \<Rightarrow> (case getitems_cols df ns of Inl e \<Rightarrow> Inl e | Inr cs \<Rightarrow> Inr (c # cs)))"

definition getitems :: "dataframe \<Rightarrow> string list \<Rightarrow> error + dataframe" where
  "getitems df names =
     (case getitems_cols df names of
        Inl e \<Rightarrow> Inl e
      | Inr cs \<Rightarrow> Inr \<lparr>index = index df, columns = cs\<rparr>)"

text \<open>\<^verbatim>\<open>df.values\<close>\<close>

definition values_of :: "dataframe \<Rightarrow> ndarray" where
  "values_of df = \<lparr>nrows = length (index df), cols = map cells (columns df)\<rparr>"

text \<open>\<^verbatim>\<open>np.array([]).reshape(n, 0)\<close>\<close>

definition empty_array :: "nat \<Rightarrow> ndarray" where
  "empty_array n = \<lparr>nrows = n, cols = []\<rparr>"

text \<open>\<^verbatim>\<open>X[:, i]\<close>\<close>

definition column_of :: "ndarray \<Rightarrow> nat \<Rightarrow> error + cell list" where
  "column_of X i = (if i < length (cols X) then Inr (cols X ! i) else Inl IndexError)"

text \<open>\<^verbatim>\<open>np.hstack([A, B])\<close> of two-dimensional arrays.\<close>

definition hstack :: "ndarray \<Rightarrow> ndarray \<Rightarrow> error + ndarray" where
  "hstack A B =
     (if nrows A = nrows B then Inr \<lparr>nrows = nrows A, cols = cols A @ cols B\<rparr>
      else Inl (ValueError ''all the input array dimensions except for the concatenation axis must match exactly''))"

text \<open>\<^verbatim>\<open>pd.DataFrame(X, columns=names, index=idx)\<close> of a float array.\<close>

definition DataFrame :: "ndarray \<Rightarrow> string list \<Rightarrow> int list \<Rightarrow> error + dataframe" where
  "DataFrame X names idx =
     (if length (cols X) = length names \<and> nrows X = length idx
      then Inr \<lparr>index = idx,
                columns = map (\<lambda>(n, xs). \<lparr>label = n, dtype = Number ''float64'', cells = xs\<rparr>)
                            (zip names (cols X))\<rparr>
      else Inl (ValueError ''Shape of passed values does not match the axes''))"

text \<open>\<^verbatim>\<open>df[col] = s\<close>: replaces the column of that label, or appends a new one.\<close>

definition setitem :: "dataframe \<Rightarrow> string \<Rightarrow> column \<Rightarrow> dataframe" where
  "setitem df col s =
     (if col \<in> set (map label (columns df))
      then df\<lparr>columns := map (\<lambda>c. if label c = col then s\<lparr>label := col\<rparr> else c) (columns df)\<rparr>
      else df\<lparr>columns := columns df @ [s\<lparr>label := col\<rparr>]\<rparr>)"

text \<open>
  Whether a fill value is refused by the dtype of the column. A categorical column takes
  only its declared categories: any other value raises \<^verbatim>\<open>TypeError\<close>. For the other
  dtypes the rule is the library's.
\<close>

definition fill_error :: "'f library \<Rightarrow> dtype \<Rightarrow> cell \<Rightarrow> error option" where
  "fill_error lib t v =
     (case t of
        Category categories \<Rightarrow>
          (case v of
             None \<Rightarrow> None
           | Some x \<Rightarrow>
               if x \<in> set categories then None
               else Some (TypeError ''Cannot setitem on a Categorical with a new category, set the categories first''))
      | _ \<Rightarrow> fillna_raises lib t v)"

text \<open>
  A column after an accepted fill: every missing cell holds the value, and the dtype is
  the one the library gives; a categorical column keeps its dtype.
\<close>

definition fill_column :: "'f library \<Rightarrow> cell \<Rightarrow> column \<Rightarrow> column" where
  "fill_column lib v c =
     c\<lparr>dtype := (case dtype c of
                    Category categories \<Rightarrow> Category categories
                  | _ \<Rightarrow> fillna_dtype lib (dtype c) v),
       cells := fillna v (cells c)\<rparr>"

text \<open>
  \<^verbatim>\<open>df[col].fillna(v, inplace=True)\<close>, as it leaves \<open>df\<close>. The fill raises when the dtype
  of the column refuses the value. Otherwise, without copy-on-write the fill on the column
  access writes through to \<open>df\<close>, as the repository's test of the imputation stage
  expects; with copy-on-write the fill reaches only a temporary copy of the column, and
  \<open>df\<close> stays as it is.
\<close>

definition fillna_inplace :: "'f library \<Rightarrow> dataframe \<Rightarrow> string \<Rightarrow> cell \<Rightarrow> error + dataframe" where
  "fillna_inplace lib df col v =
     (case getitem df col of
        Inl e \<Rightarrow> Inl e
      | Inr s \<Rightarrow>
          (case fill_error lib (dtype s) v of
             Some e \<Rightarrow> Inl e
           | None \<Rightarrow>
               if copy_on_write lib then Inr df
               else Inr (df\<lparr>columns := map (\<lambda>c. if label c = col then fill_column lib v c else c)
                                          (columns df)\<rparr>)))"

text \<open>\<^verbatim>\<open>[f'PCA_{i+1}' for i in range(n)]\<close>: decimal rendering of a positive count.\<close>

definition digit_char :: "nat \<Rightarrow> char" where
  "digit_char n = ''0123456789'' ! n"

function str_nat :: "nat \<Rightarrow> string" where
  "str_nat n = (if n < 10 then [digit_char n] else str_nat (n div 10) @ [digit_char (n mod 10)])"
  by pat_completeness auto
termination
  by (relation "measure id") auto

definition numbered :: "string \<Rightarrow> nat \<Rightarrow> string list" where
  "numbered prefix n = map (\<lambda>i. prefix @ str_nat (i + 1)) [0..<n]"

section \<open>State access\<close>

definition deref :: "ref \<Rightarrow> ('f, dataframe) py" where
  "deref r w = (w, Inr (heap w ! r))"

text \<open>\<^verbatim>\<open>df.copy()\<close>: a new dataframe object with the same contents.\<close>

definition copy :: "ref \<Rightarrow> ('f, ref) py" where
  "copy r w = (w\<lparr>heap := heap w @ [heap w ! r]\<rparr>, Inr (length (heap w)))"

definition modify :: "ref \<Rightarrow> (dataframe \<Rightarrow> dataframe) \<Rightarrow> ('f, unit) py" where
  "modify r g w = (w\<lparr>heap := (heap w)[r := g (heap w ! r)]\<rparr>, Inr ())"

definition get_config :: "('f, config) py" where
  "get_config w = (w, Inr (config w))"

definition log_step :: "string \<Rightarrow> fpart list \<Rightarrow> ('f, unit) py" where
  "log_step stp det w =
     (w\<lparr>preprocessing_log := preprocessing_log w @ [\<lparr>step = stp, details = det\<rparr>],
        logger := logger w @ [(INFO, S stp # S '': '' # det)]\<rparr>, Inr ())"

definition logger_info :: "fpart list \<Rightarrow> ('f, unit) py" where
  "logger_info msg w = (w\<lparr>logger := logger w @ [(INFO, msg)]\<rparr>, Inr ())"

definition logger_warning :: "fpart list \<Rightarrow> ('f, unit) py" where
  "logger_warning msg w = (w\<lparr>logger := logger w @ [(WARNING, msg)]\<rparr>, Inr ())"

section \<open>The stages\<close>

subsection \<open>\<^verbatim>\<open>_identify_feature_types\<close>\<close>

definition identify_feature_types :: "ref \<Rightarrow> ('f, (string, string list) dict) py" where
  "identify_feature_types df =
     py_bind get_config (\<lambda>cfg.
     py_bind (deref df) (\<lambda>d.
       let available_cols = map label (columns d);
           identified_features =
             map (\<lambda>(category, features). (category, filter (\<lambda>f. f \<in> set available_cols) features))
               (feature_categories cfg);
           numerical_cols = map label (filter (\<lambda>c. is_number (dtype c)) (columns d));
           categorical_cols = map label (filter (\<lambda>c. is_object_or_category (dtype c)) (columns d))
       in
       py_bind (py_lift (dict_get identified_features ''identifier_features'')) (\<lambda>identifiers.
         let numerical_cols = filter (\<lambda>col. col \<notin> set identifiers) numerical_cols;
             identified_features = AList.update ''numerical_features'' numerical_cols identified_features;
             identified_features =
               AList.update ''categorical_features_available'' categorical_cols identified_features
         in
         py_seq (log_step ''Feature Identification''
                   [S ''Numerical: '', N (int (length numerical_cols)),
                    S '', Categorical: '', N (int (length categorical_cols))])
           (py_return identified_features))))"

subsection \<open>\<^verbatim>\<open>_handle_missing_values\<close>\<close>

type_synonym missing_info = "(string, string \<times> cell) dict"

text \<open>
  \<^verbatim>\<open>s.mode().iloc[0] if not s.mode().empty else fallback\<close>
\<close>

definition mode_or :: "'f library \<Rightarrow> val \<Rightarrow> column \<Rightarrow> error + cell" where
  "mode_or lib fallback s =
     (case Series_mode lib s of
        Inl e \<Rightarrow> Inl e
      | Inr modes \<Rightarrow> (case modes of [] \<Rightarrow> Inr (Some fallback) | m # _ \<Rightarrow> Inr (Some m)))"

definition numerical_fill_value :: "'f library \<Rightarrow> string \<Rightarrow> column \<Rightarrow> error + cell" where
  "numerical_fill_value lib strategy s =
     (if strategy = ''median'' then Series_median lib s
      else if strategy = ''mean'' then Series_mean lib s
      else mode_or lib (Num 0) s)"

definition categorical_fill_value :: "'f library \<Rightarrow> string \<Rightarrow> column \<Rightarrow> error + cell" where
  "categorical_fill_value lib strategy s =
     (if strategy = ''most_frequent'' then mode_or lib (Str ''Unknown'') s
      else Inr (Some (Str ''Unknown'')))"

text \<open>
  The two \<^verbatim>\<open>for col in ...\<close> loops: each computes the fill value of the column as it
  then stands in \<open>df_clean\<close>, fills the column in place and records it in \<^verbatim>\<open>missing_info\<close>.
\<close>

fun impute_loop ::
  "'f library \<Rightarrow> (column \<Rightarrow> error + cell) \<Rightarrow> string \<Rightarrow> ref \<Rightarrow> string list \<Rightarrow> missing_info \<Rightarrow>
     ('f, missing_info) py" where
  "impute_loop lib fill strategy df_clean [] missing_info = py_return missing_info"
| "impute_loop lib fill strategy df_clean (col # rest) missing_info =
     py_bind (deref df_clean) (\<lambda>d.
     py_bind (py_lift (getitem d col)) (\<lambda>s.
     py_bind (py_lift (fill s)) (\<lambda>fill_value.
     py_bind (py_lift (fillna_inplace lib d col fill_value)) (\<lambda>d'.
     py_seq (modify df_clean (\<lambda>_. d'))
       (impute_loop lib fill strategy df_clean rest
          (AList.update col (strategy, fill_value) missing_info))))))"

definition handle_missing_values ::
  "'f library \<Rightarrow> ref \<Rightarrow> (string, string list) dict \<Rightarrow> ('f, ref) py" where
  "handle_missing_values lib df feature_types =
     py_bind (copy df) (\<lambda>df_clean.
     py_bind (deref df_clean) (\<lambda>d.
     py_bind get_config (\<lambda>cfg.
       let missing_features = map label (filter (\<lambda>c. isnull_sum (cells c) > 0) (columns d)) in
       if length missing_features > 0 then
         py_seq (log_step ''Missing Values Detection''
                   [S ''Found missing values in '', N (int (length missing_features)), S '' features''])
        (py_bind (py_lift (dict_get feature_types ''numerical_features'')) (\<lambda>numerical_features.
           let numerical_missing = filter (\<lambda>col. col \<in> set numerical_features) missing_features;
               strategy = missing_strategy_numerical (preprocessing cfg)
           in
         py_bind (if numerical_missing \<noteq> []
                  then impute_loop lib (numerical_fill_value lib strategy) strategy df_clean
                         numerical_missing []
                  else py_return []) (\<lambda>missing_info.
         py_bind (py_lift (dict_get feature_types ''categorical_features_available''))
           (\<lambda>categorical_features.
           let categorical_missing = filter (\<lambda>col. col \<in> set categorical_features) missing_features;
               strategy = missing_strategy_categorical (preprocessing cfg)
           in
         py_bind (if categorical_missing \<noteq> []
                  then impute_loop lib (categorical_fill_value lib strategy) strategy df_clean
                         categorical_missing missing_info
                  else py_return missing_info) (\<lambda>missing_info.
         py_seq (log_step ''Missing Values Handling''
                   [S ''Imputed '', N (int (length missing_info)), S '' features: '',
                    L (map fst missing_info)])
           (py_return df_clean))))))
       else
         py_seq (log_step ''Missing Values Check'' [S ''No missing values found''])
           (py_return df_clean))))"

subsection \<open>\<^verbatim>\<open>_apply_power_transformation\<close>\<close>

text \<open>\<^verbatim>\<open>abs(skew_value) >= skewness_threshold\<close>; a \<^verbatim>\<open>NaN\<close> skewness compares false.\<close>

definition high_skew :: "real option \<Rightarrow> real \<Rightarrow> bool" where
  "high_skew skew_value thr =
     (case skew_value of None \<Rightarrow> False | Some v \<Rightarrow> \<bar>v\<bar> \<ge> thr)"

text \<open>The first loop over \<^verbatim>\<open>enumerate(feature_names)\<close>, returning \<^verbatim>\<open>high_skew_features\<close>.\<close>

fun skew_loop :: "'f library \<Rightarrow> real \<Rightarrow> ndarray \<Rightarrow> nat \<Rightarrow> string list \<Rightarrow> error + string list" where
  "skew_loop lib thr X i [] = Inr []"
| "skew_loop lib thr X i (feature # rest) =
     (case column_of X i of
        Inl e \<Rightarrow> Inl e
      | Inr c \<Rightarrow>
          (case skew_loop lib thr X (i + 1) rest of
             Inl e \<Rightarrow> Inl e
           | Inr hs \<Rightarrow> Inr (if high_skew (skew lib c) thr then feature # hs else hs)))"

text \<open>
  The second loop, which recomputes the skewness of the qualifying columns of the
  transformed array; its results are not used, but the column reads can raise.
\<close>

fun improvements_loop :: "ndarray \<Rightarrow> nat \<Rightarrow> string list \<Rightarrow> string list \<Rightarrow> error + unit" where
  "improvements_loop X_transformed i [] high_skew_features = Inr ()"
| "improvements_loop X_transformed i (feature # rest) high_skew_features =
     (if feature \<in> set high_skew_features
      then (case column_of X_transformed i of
              Inl e \<Rightarrow> Inl e
            | Inr c \<Rightarrow> improvements_loop X_transformed (i + 1) rest high_skew_features)
      else improvements_loop X_transformed (i + 1) rest high_skew_features)"

definition apply_power_transformation ::
  "'f library \<Rightarrow> ndarray \<Rightarrow> string list \<Rightarrow> ('f, ndarray \<times> 'f estimator option) py" where
  "apply_power_transformation lib X feature_names =
     py_bind get_config (\<lambda>cfg.
       if \<not> apply_power_transform (preprocessing cfg) then py_return (X, None)
       else
         py_bind (py_lift (skew_loop lib (skewness_threshold (preprocessing cfg)) X 0 feature_names))
           (\<lambda>high_skew_features.
         if high_skew_features = [] then
           py_seq (log_step ''Skewness Analysis'' [S ''No highly skewed features found''])
             (py_return (X, None))
         else
           let method = power_transform_method (preprocessing cfg) in
           py_bind (py_lift (PowerTransformer_fit_transform lib method X)) (\<lambda>(X_transformed, params).
           py_bind (py_lift (improvements_loop X_transformed 0 feature_names high_skew_features)) (\<lambda>_.
           py_seq (log_step ''Power Transformation''
                     [S ''Applied '', S method, S '' to '',
                      N (int (length high_skew_features)), S '' features''])
             (py_return (X_transformed, Some (PowerTransformer, params)))))))"

subsection \<open>\<^verbatim>\<open>_apply_scaling\<close>\<close>

definition class_name :: "sk_class \<Rightarrow> string" where
  "class_name c =
     (case c of
        PowerTransformer \<Rightarrow> ''PowerTransformer'' | StandardScaler \<Rightarrow> ''StandardScaler''
      | RobustScaler \<Rightarrow> ''RobustScaler'' | MinMaxScaler \<Rightarrow> ''MinMaxScaler''
      | OneHotEncoder \<Rightarrow> ''OneHotEncoder'' | PCA \<Rightarrow> ''PCA'' | TSNE \<Rightarrow> ''TSNE'')"

definition apply_scaling :: "'f library \<Rightarrow> ndarray \<Rightarrow> ('f, ndarray \<times> 'f estimator) py" where
  "apply_scaling lib X =
     py_bind get_config (\<lambda>cfg.
       let method = scaling_method (preprocessing cfg) in
       py_bind (if method = ''standard'' then py_return StandardScaler
                else if method = ''robust'' then py_return RobustScaler
                else if method = ''minmax'' then py_return MinMaxScaler
                else py_seq (logger_warning [S ''Unknown scaling method: '', S method,
                                             S ''. Using StandardScaler.''])
                       (py_return StandardScaler)) (\<lambda>scaler_class.
       py_bind (py_lift (scaler_fit_transform lib scaler_class X)) (\<lambda>(X_scaled, params).
       py_seq (log_step ''Feature Scaling'' [S ''Applied '', S (class_name scaler_class)])
         (py_return (X_scaled, (scaler_class, params))))))"

subsection \<open>\<^verbatim>\<open>_encode_categorical_features\<close>\<close>

definition encode_categorical_features ::
  "'f library \<Rightarrow> ref \<Rightarrow> string list \<Rightarrow> ('f, ndarray \<times> string list \<times> 'f estimator option) py" where
  "encode_categorical_features lib df categorical_features =
     py_bind (deref df) (\<lambda>d.
       if categorical_features = [] then py_return (empty_array (length (index d)), [], None)
       else
         py_bind get_config (\<lambda>cfg.
           let encoding_method = categorical_encoding (preprocessing cfg) in
           if encoding_method = ''onehot'' then
             py_bind (py_lift (getitems d categorical_features)) (\<lambda>sub.
             py_bind (py_lift (OneHotEncoder_fit_transform lib (drop_first_category (preprocessing cfg))
                                 sub categorical_features)) (\<lambda>(X_categorical, feature_names, params).
             py_seq (log_step ''Categorical Encoding''
                       [S ''One-hot encoded '', N (int (length categorical_features)),
                        S '' features into '', N (int (length feature_names)), S '' features''])
               (py_return (X_categorical, feature_names, Some (OneHotEncoder, params)))))
           else
             py_seq (logger_warning [S ''Encoding method '', S encoding_method,
                                     S '' not implemented. Skipping categorical encoding.''])
               (py_return (empty_array (length (index d)), [], None))))"

subsection \<open>\<^verbatim>\<open>_apply_dimensionality_reduction\<close>\<close>

text \<open>
  \<^verbatim>\<open>np.argmax\<close> of a boolean array: the position of the first \<^verbatim>\<open>True\<close>, position 0
  when there is none, and an error on an empty array.
\<close>

fun first_true :: "bool list \<Rightarrow> nat option" where
  "first_true [] = None"
| "first_true (b # bs) = (if b then Some 0 else map_option Suc (first_true bs))"

definition argmax :: "bool list \<Rightarrow> error + nat" where
  "argmax bs =
     (if bs = [] then Inl (ValueError ''attempt to get argmax of an empty sequence'')
      else Inr (case first_true bs of None \<Rightarrow> 0 | Some i \<Rightarrow> i))"

text \<open>
  The component count of the explained-variance branch:
  \<^verbatim>\<open>cumsum_var = np.cumsum(pca.explained_variance_ratio_)\<close>,
  \<^verbatim>\<open>n_comp = np.argmax(cumsum_var >= n_components) + 1\<close> and then
  \<^verbatim>\<open>n_comp = max(n_comp, min_components)\<close>.
\<close>

definition choose_n_comp :: "'f library \<Rightarrow> real list \<Rightarrow> real \<Rightarrow> int \<Rightarrow> error + int" where
  "choose_n_comp lib ratio n_components min_components =
     (let cumsum_var = np_cumsum lib ratio in
      case argmax (map (\<lambda>v. v \<ge> n_components) cumsum_var) of
        Inl e \<Rightarrow> Inl e
      | Inr i \<Rightarrow> Inr (max (int i + 1) min_components))"

type_synonym 'f reduction_results = "(string, ndarray \<times> 'f estimator) dict"

text \<open>
  The method in its two parts: the principal-component block, which starts the
  \<^verbatim>\<open>reduction_results\<close> dictionary, and the t-SNE block, which extends it.
\<close>

definition apply_pca_stage :: "'f library \<Rightarrow> ndarray \<Rightarrow> ('f, 'f reduction_results) py" where
  "apply_pca_stage lib X =
     py_bind get_config (\<lambda>cfg.
       if apply_pca (dimensionality_reduction cfg) then
         let n_components = pca_n_components (dimensionality_reduction cfg);
             min_components = pca_min_components (dimensionality_reduction cfg)
         in
         py_bind
           (case n_components of
              PyFloat r \<Rightarrow>
                if r \<le> 1 then
                  py_bind (py_lift (PCA_fit lib X)) (\<lambda>full.
                  py_bind (py_lift (choose_n_comp lib (explained_variance_ratio lib full) r min_components))
                    (\<lambda>n_comp. py_lift (PCA_fit_transform lib n_comp X)))
                else py_lift (PCA_fit_transform lib \<lfloor>r\<rfloor> X)
            | PyInt n \<Rightarrow> py_lift (PCA_fit_transform lib n X)) (\<lambda>(X_pca, params).
         let explained_var = np_sum lib (explained_variance_ratio lib params) in
         py_seq (log_step ''PCA Application''
                   [S ''Reduced to '', N (int (length (cols X_pca))),
                    S '' components, explained variance: '', F3 explained_var])
           (py_return [(''pca'', (X_pca, (PCA, params)))]))
       else py_return [])"

definition apply_tsne_stage ::
  "'f library \<Rightarrow> ndarray \<Rightarrow> 'f reduction_results \<Rightarrow> ('f, 'f reduction_results) py" where
  "apply_tsne_stage lib X reduction_results =
     py_bind get_config (\<lambda>cfg.
       if apply_tsne (dimensionality_reduction cfg) then
         let n_components = tsne_n_components (dimensionality_reduction cfg);
             perplexity = tsne_perplexity (dimensionality_reduction cfg);
             random_state = tsne_random_state (dimensionality_reduction cfg);
             X_for_tsne = (case map_of reduction_results ''pca'' of
                             Some (X_pca, _) \<Rightarrow> X_pca | None \<Rightarrow> X)
         in
         py_bind (py_lift (TSNE_fit_transform lib n_components
                             (min perplexity ((int (nrows X) - 1) div 3)) random_state X_for_tsne))
           (\<lambda>(X_tsne, params).
         py_seq (log_step ''t-SNE Application''
                   [S ''Reduced to '', N (int (length (cols X_tsne))),
                    S '' components for visualization''])
           (py_return (AList.update ''tsne'' (X_tsne, (TSNE, params)) reduction_results)))
       else py_return reduction_results)"

definition apply_dimensionality_reduction ::
  "'f library \<Rightarrow> ndarray \<Rightarrow> string list \<Rightarrow> ('f, 'f reduction_results) py" where
  "apply_dimensionality_reduction lib X feature_names =
     py_bind (apply_pca_stage lib X) (\<lambda>reduction_results.
       apply_tsne_stage lib X reduction_results)"

section \<open>Fitting and transforming\<close>

type_synonym results = "(string, dataframe) dict"

text \<open>The loop over \<^verbatim>\<open>reduction_results.items()\<close> of \<^verbatim>\<open>fit_transform\<close>.\<close>

fun store_reductions :: "'f reduction_results \<Rightarrow> int list \<Rightarrow> results \<Rightarrow> ('f, results) py" where
  "store_reductions [] idx results = py_return results"
| "store_reductions ((method, (X_reduced, reducer)) # rest) idx results =
     py_bind
       (if method = ''pca'' then
          py_seq (py_exec (\<lambda>w. w\<lparr>pca := Some reducer\<rparr>))
            (py_return (numbered ''PCA_'' (length (cols X_reduced))))
        else if method = ''tsne'' then
          py_seq (py_exec (\<lambda>w. w\<lparr>tsne := Some reducer\<rparr>))
            (py_return (numbered ''t-SNE_'' (length (cols X_reduced))))
        else py_raise UnboundLocalError) (\<lambda>feature_names.
     py_bind (py_lift (DataFrame X_reduced feature_names idx)) (\<lambda>frame.
       store_reductions rest idx (AList.update method frame results)))"

text \<open>\<^verbatim>\<open>for col in frame.columns: complete_data[name(col)] = frame[col]\<close>\<close>

definition add_columns :: "(string \<Rightarrow> string) \<Rightarrow> dataframe \<Rightarrow> dataframe \<Rightarrow> dataframe" where
  "add_columns rename frame complete_data =
     fold (\<lambda>c acc. setitem acc (rename (label c)) c) (columns frame) complete_data"

definition add_if_present :: "results \<Rightarrow> string \<Rightarrow> dataframe \<Rightarrow> dataframe" where
  "add_if_present results key complete_data =
     (case map_of results key of
        None \<Rightarrow> complete_data
      | Some frame \<Rightarrow> add_columns (\<lambda>col. col) frame complete_data)"

text \<open>
  \<^verbatim>\<open>fit_transform\<close>. The array returned by \<^verbatim>\<open>_apply_power_transformation\<close> is never
  \<^verbatim>\<open>None\<close> (it is the input array when no transform is fitted), so \<^verbatim>\<open>X_to_scale\<close> is
  always that array and the \<^verbatim>\<open>power_transformed\<close> variant is always produced.
\<close>

definition fit_transform :: "'f library \<Rightarrow> ref \<Rightarrow> ('f, results) py" where
  "fit_transform lib df =
     py_seq (logger_info [S ''Starting preprocessing pipeline fitting and transformation''])
    (py_bind (identify_feature_types df) (\<lambda>feature_types.
     py_bind (handle_missing_values lib df feature_types) (\<lambda>df_clean.
     py_bind (py_lift (dict_get feature_types ''numerical_features'')) (\<lambda>numerical_features.
     py_bind (py_lift (dict_get feature_types ''categorical_features_available''))
       (\<lambda>categorical_features.
     py_bind (deref df_clean) (\<lambda>d.
     py_bind (py_lift (getitems d numerical_features)) (\<lambda>numerical_frame.
     let X_numerical = values_of numerical_frame in
     py_bind (apply_power_transformation lib X_numerical numerical_features)
       (\<lambda>(X_power_transformed, transformer).
     py_seq (py_exec (\<lambda>w. w\<lparr>power_transformer := transformer\<rparr>))
    (let X_to_scale = X_power_transformed in
     py_bind (apply_scaling lib X_to_scale) (\<lambda>(X_scaled, fitted_scaler).
     py_seq (py_exec (\<lambda>w. w\<lparr>scaler := Some fitted_scaler\<rparr>))
    (py_bind (encode_categorical_features lib df_clean categorical_features)
       (\<lambda>(X_categorical, categorical_feature_names, encoder).
     py_seq (py_exec (\<lambda>w. w\<lparr>categorical_encoder := encoder\<rparr>))
    (py_bind (if length (cols X_categorical) > 0
              then py_bind (py_lift (hstack X_scaled X_categorical)) (\<lambda>X_combined.
                     py_return (X_combined, numerical_features @ categorical_feature_names))
              else py_return (X_scaled, numerical_features))
       (\<lambda>(X_combined, combined_feature_names).
     py_bind (apply_dimensionality_reduction lib X_combined combined_feature_names)
       (\<lambda>reduction_results.
     let idx = index d in
     py_bind (py_lift (DataFrame X_power_transformed numerical_features idx)) (\<lambda>power_frame.
     py_bind (py_lift (DataFrame X_scaled numerical_features idx)) (\<lambda>scaled_frame.
     py_bind (py_lift (DataFrame X_combined combined_feature_names idx)) (\<lambda>combined_frame.
     py_bind (if length (cols X_categorical) > 0
              then py_bind (py_lift (DataFrame X_categorical categorical_feature_names idx))
                     (\<lambda>categorical_frame.
                     py_return [(''power_transformed'', power_frame), (''scaled'', scaled_frame),
                                (''combined'', combined_frame),
                                (''categorical_encoded'', categorical_frame)])
              else py_return [(''power_transformed'', power_frame), (''scaled'', scaled_frame),
                              (''combined'', combined_frame)]) (\<lambda>results.
     py_bind (store_reductions reduction_results idx results) (\<lambda>results.
     py_bind (copy df_clean) (\<lambda>complete_data.
     py_seq (modify complete_data (add_columns (\<lambda>col. col @ ''_scaled'') scaled_frame))
    (py_seq (modify complete_data (add_if_present results ''pca''))
    (py_seq (modify complete_data (add_if_present results ''tsne''))
    (py_bind (deref complete_data) (\<lambda>complete_frame.
     let results = AList.update ''complete'' complete_frame results in
     py_seq (py_exec (\<lambda>w. w\<lparr>self_feature_names :=
               [(''numerical'', numerical_features), (''categorical'', categorical_features),
                (''categorical_encoded'', categorical_feature_names),
                (''combined'', combined_feature_names)]\<rparr>))
    (py_seq (py_exec (\<lambda>w. w\<lparr>fitted := True\<rparr>))
    (py_seq (log_step ''Pipeline Fitting Complete''
               [S ''Generated '', N (int (length results)), S '' dataset variants''])
       (py_return results))))))))))))))))))))))))))))"

text \<open>
  \<^verbatim>\<open>transform\<close>. A pipeline without a scaler has \<^verbatim>\<open>self.scaler = None\<close>, whose
  \<^verbatim>\<open>transform\<close> attribute does not exist.
\<close>

definition transform :: "'f library \<Rightarrow> ref \<Rightarrow> ('f, results) py" where
  "transform lib df =
     py_bind (\<lambda>w. (w, Inr (fitted w))) (\<lambda>is_fitted.
     if \<not> is_fitted
     then py_raise (ValueError ''Pipeline must be fitted before transforming new data'')
     else
     py_seq (logger_info [S ''Transforming new data using fitted pipeline''])
    (py_bind (identify_feature_types df) (\<lambda>feature_types.
     py_bind (handle_missing_values lib df feature_types) (\<lambda>df_clean.
     py_bind (\<lambda>w. (w, Inr w)) (\<lambda>self.
     py_bind (py_lift (dict_get (self_feature_names self) ''numerical'')) (\<lambda>numerical_features.
     py_bind (deref df_clean) (\<lambda>d.
     py_bind (py_lift (getitems d numerical_features)) (\<lambda>numerical_frame.
     let X_numerical = values_of numerical_frame in
     py_bind (case power_transformer self of
                Some (_, params) \<Rightarrow> py_lift (PowerTransformer_transform lib params X_numerical)
              | None \<Rightarrow> py_return X_numerical) (\<lambda>X_numerical.
     py_bind (case scaler self of
                Some fitted_scaler \<Rightarrow> py_lift (scaler_transform lib fitted_scaler X_numerical)
              | None \<Rightarrow> py_raise AttributeError) (\<lambda>X_scaled.
     py_bind (case categorical_encoder self of
                Some (_, params) \<Rightarrow>
                  py_bind (py_lift (dict_get (self_feature_names self) ''categorical''))
                    (\<lambda>categorical_features.
                  py_bind (py_lift (getitems d categorical_features)) (\<lambda>categorical_frame.
                  py_bind (py_lift (OneHotEncoder_transform lib params categorical_frame))
                    (\<lambda>X_categorical. py_lift (hstack X_scaled X_categorical))))
              | None \<Rightarrow> py_return X_scaled) (\<lambda>X_combined.
     let idx = index d in
     py_bind (py_lift (DataFrame X_scaled numerical_features idx)) (\<lambda>scaled_frame.
     py_bind (py_lift (dict_get (self_feature_names self) ''combined'')) (\<lambda>combined_feature_names.
     py_bind (py_lift (DataFrame X_combined combined_feature_names idx)) (\<lambda>combined_frame.
     let results = [(''scaled'', scaled_frame), (''combined'', combined_frame)] in
     case pca self of
       Some (_, params) \<Rightarrow>
         py_bind (py_lift (PCA_transform lib params X_combined)) (\<lambda>X_pca.
         py_bind (py_lift (DataFrame X_pca (numbered ''PCA_'' (length (cols X_pca))) idx))
           (\<lambda>pca_frame. py_return (AList.update ''pca'' pca_frame results)))
     | None \<Rightarrow> py_return results))))))))))))))"

section \<open>Persistence\<close>

text \<open>
  \<^verbatim>\<open>Path(filepath).parent\<close> for a plain POSIX path: the text before the last slash.
\<close>

definition path_parent :: "string \<Rightarrow> string" where
  "path_parent p =
     (let ds = rev (dropWhile (\<lambda>c. c \<noteq> CHR ''/'') (rev p)) in
      if ds = [] then ''.'' else if ds = ''/'' then ''/'' else butlast ds)"

definition dump :: "'f pickle \<Rightarrow> string \<Rightarrow> ('f, unit) py" where
  "dump obj path = py_exec (\<lambda>w. w\<lparr>files := AList.update path obj (files w)\<rparr>)"

text \<open>The loop over \<^verbatim>\<open>components_to_save.items()\<close>.\<close>

fun dump_components :: "string \<Rightarrow> (string \<times> 'f estimator option) list \<Rightarrow> ('f, unit) py" where
  "dump_components filepath [] = py_return ()"
| "dump_components filepath ((name, component) # rest) =
     py_seq (case component of
               Some c \<Rightarrow> dump (Component c) (filepath @ ''_'' @ name @ ''.pkl'')
             | None \<Rightarrow> py_return ())
       (dump_components filepath rest)"

definition save_pipeline :: "string \<Rightarrow> ('f, unit) py" where
  "save_pipeline filepath =
     py_bind (\<lambda>w. (w, Inr w)) (\<lambda>self.
       if \<not> fitted self then py_raise (ValueError ''Pipeline must be fitted before saving'')
       else
         py_seq (py_exec (\<lambda>w. w\<lparr>dirs := List.insert (path_parent filepath) (dirs w)\<rparr>))
        (let pipeline_data =
               PipelineData (config self) (self_feature_names self) (preprocessing_log self)
                 (fitted self);
             components_to_save =
               [(''power_transformer'', power_transformer self), (''scaler'', scaler self),
                (''categorical_encoder'', categorical_encoder self), (''pca'', pca self),
                (''tsne'', tsne self)]
         in
         py_seq (dump pipeline_data (filepath @ ''_pipeline.pkl''))
        (py_seq (dump_components filepath components_to_save)
           (logger_info [S ''Pipeline saved to '', S filepath]))))"

section \<open>\<^verbatim>\<open>validate_output\<close>\<close>

type_synonym validation_results = "(string, bool) dict"

text \<open>The loop of the missing-values check.\<close>

fun missing_checks :: "results \<Rightarrow> validation_results \<Rightarrow> ('f, validation_results) py" where
  "missing_checks [] validation_results = py_return validation_results"
| "missing_checks ((dataset_name, dataset) # rest) validation_results =
     (if dataset_name \<in> set [''tsne''] then missing_checks rest validation_results
      else
        let missing_values = total_missing dataset;
            validation_results =
              AList.update (dataset_name @ ''_no_missing'') (missing_values = 0) validation_results
        in
        py_seq (if missing_values > 0
                then logger_warning [S ''Found '', N (int missing_values),
                                     S '' missing values in '', S dataset_name]
                else py_return ())
          (missing_checks rest validation_results))"

definition mean_check :: "'f library \<Rightarrow> dataframe \<Rightarrow> bool" where
  "mean_check lib scaled_data =
     list_all (\<lambda>c. case DataFrame_mean lib (cells c) of
                      Some (Num m) \<Rightarrow> \<bar>m\<bar> < 0.1 | _ \<Rightarrow> False) (columns scaled_data)"

definition std_check :: "'f library \<Rightarrow> dataframe \<Rightarrow> bool" where
  "std_check lib scaled_data =
     list_all (\<lambda>c. case DataFrame_std lib (cells c) of
                      Some (Num sd) \<Rightarrow> \<bar>sd - 1.0\<bar> < 0.1 | _ \<Rightarrow> False) (columns scaled_data)"

text \<open>
  \<^verbatim>\<open>(abs(scaled_data.mean()) < 0.1).all()\<close> and \<^verbatim>\<open>(abs(scaled_data.std() - 1.0) < 0.1).all()\<close>
  are the two definitions above; a \<^verbatim>\<open>NaN\<close> statistic compares false.
\<close>

text \<open>The loop of the shape check; \<open>base_shape\<close> is \<open>None\<close> until the first variant.\<close>

fun shape_checks :: "results \<Rightarrow> nat option \<Rightarrow> validation_results \<Rightarrow> validation_results" where
  "shape_checks [] base_shape validation_results = validation_results"
| "shape_checks ((dataset_name, dataset) # rest) base_shape validation_results =
     (let base = (case base_shape of None \<Rightarrow> length (index dataset) | Some b \<Rightarrow> b);
          shape_consistent = (length (index dataset) = base)
      in shape_checks rest (Some base)
           (AList.update (dataset_name @ ''_shape_consistent'') shape_consistent validation_results))"

definition validate_output :: "'f library \<Rightarrow> results \<Rightarrow> ('f, validation_results) py" where
  "validate_output lib results =
     py_bind (\<lambda>w. (w, Inr w)) (\<lambda>self.
     let validation_results = [] in
     if \<not> check_missing_values (validation (config self)) then py_return validation_results
     else
       py_bind (missing_checks results validation_results) (\<lambda>validation_results.
       let validation_results =
             (case map_of results ''scaled'' of
                Some scaled_data \<Rightarrow>
                  if check_feature_ranges (validation (config self)) then
                    (case scaler self of
                       Some (StandardScaler, _) \<Rightarrow>
                         AList.update ''scaled_unit_variance'' (std_check lib scaled_data)
                           (AList.update ''scaled_mean_centered'' (mean_check lib scaled_data)
                              validation_results)
                     | _ \<Rightarrow> validation_results)
                  else validation_results
              | None \<Rightarrow> validation_results);
           validation_results =
             (if check_shape_consistency (validation (config self))
              then shape_checks results None validation_results
              else validation_results);
           passed_checks = length (filter (\<lambda>(_, ok). ok) validation_results);
           total_checks = length validation_results
       in
       py_seq (log_step ''Validation Complete''
                 [S ''Passed '', N (int passed_checks), S ''/'', N (int total_checks),
                  S '' validation checks''])
         (py_return validation_results)))"

section \<open>Construction and the default configuration\<close>

text \<open>The \<^verbatim>\<open>default_config\<close> of \<^verbatim>\<open>_load_config\<close>, without its output paths.\<close>

definition default_config :: config where
  "default_config =
     \<lparr>preprocessing =
        \<lparr>missing_strategy_numerical = ''median'',
         missing_strategy_categorical = ''most_frequent'',
         scaling_method = ''standard'',
         apply_power_transform = True,
         power_transform_method = ''yeo-johnson'',
         skewness_threshold = 1.0,
         categorical_encoding = ''onehot'',
         drop_first_category = True\<rparr>,
      dimensionality_reduction =
        \<lparr>apply_pca = True,
         pca_n_components = PyFloat 0.95,
         pca_min_components = 5,
         apply_tsne = True,
         tsne_n_components = 2,
         tsne_perplexity = 30,
         tsne_random_state = 42\<rparr>,
      feature_categories =
        [(''financial_features'', [''Revenue'', ''ProfitMargin'', ''MarketCap'', ''GrowthRate'']),
         (''esg_features'',
            [''ESG_Overall'', ''ESG_Environmental'', ''ESG_Social'', ''ESG_Governance'']),
         (''environmental_features'', [''CarbonEmissions'', ''WaterUsage'', ''EnergyConsumption'']),
         (''categorical_features'', [''Industry'', ''Region'']),
         (''identifier_features'', [''CompanyID'', ''CompanyName'', ''Year''])],
      validation =
        \<lparr>check_missing_values = True,
         check_feature_ranges = True,
         check_shape_consistency = True\<rparr>\<rparr>"

text \<open>
  \<^verbatim>\<open>__init__\<close> with a given configuration, in an environment with the dataframes \<open>h\<close>.
\<close>

definition init :: "config \<Rightarrow> dataframe list \<Rightarrow> 'f world" where
  "init cfg h =
     \<lparr>config = cfg, self_feature_names = [], preprocessing_log = [], fitted = False,
      power_transformer = None, scaler = None, categorical_encoder = None, pca = None,
      tsne = None, heap = h, logger = [(INFO, [S ''ESG Preprocessing Pipeline initialized''])],
      files = [], dirs = []\<rparr>"

section \<open>Concrete inputs\<close>

text \<open>
  A stand-in for the numerical library, used only to run the pipeline on concrete inputs:
  pandas runs without copy-on-write, the fill statistics return the first present value,
  no fill into a column that is not categorical raises or changes the dtype, the skewness of a column is read
  off its first cell, the power transform halves every number, the encoder gives one
  indicator column per categorical column, the scalers and the fitted projection are the
  identity, the principal-component fit keeps the first \<open>n\<close> columns, the
  explained-variance ratios are fixed ones whose cumulative sums reach 95 percent at two
  components, and sums and cumulative sums are exact.
\<close>

fun cumsum_from :: "real \<Rightarrow> real list \<Rightarrow> real list" where
  "cumsum_from acc [] = []"
| "cumsum_from acc (x # xs) = (acc + x) # cumsum_from (acc + x) xs"

definition present :: "cell list \<Rightarrow> val list" where
  "present s = concat (map (\<lambda>c. case c of None \<Rightarrow> [] | Some v \<Rightarrow> [v]) s)"

definition first_present :: "cell list \<Rightarrow> cell" where
  "first_present s = (case present s of [] \<Rightarrow> None | v # _ \<Rightarrow> Some v)"

definition halved :: "ndarray \<Rightarrow> ndarray" where
  "halved X =
     X\<lparr>cols := map (map (map_option (\<lambda>v. case v of Num x \<Rightarrow> Num (x / 2) | Str t \<Rightarrow> Str t))) (cols X)\<rparr>"

definition indicators :: "dataframe \<Rightarrow> ndarray" where
  "indicators d =
     \<lparr>nrows = length (index d),
      cols = map (\<lambda>c. map (\<lambda>x. case x of None \<Rightarrow> Some (Num 0) | Some _ \<Rightarrow> Some (Num 1)) (cells c))
               (columns d)\<rparr>"

definition stub_library :: "nat library" where
  "stub_library =
     \<lparr>copy_on_write = False,
      Series_median = (\<lambda>s. Inr (first_present (cells s))),
      Series_mean = (\<lambda>s. Inr (first_present (cells s))),
      Series_mode = (\<lambda>s. Inr (present (cells s))),
      fillna_raises = (\<lambda>t v. None),
      fillna_dtype = (\<lambda>t v. t),
      DataFrame_mean = first_present,
      DataFrame_std = (\<lambda>s. Some (Num 1)),
      np_cumsum = cumsum_from 0,
      np_sum = sum_list,
      skew = (\<lambda>s. case s of Some (Num x) # _ \<Rightarrow> Some x | _ \<Rightarrow> None),
      PowerTransformer_fit_transform = (\<lambda>method X. Inr (halved X, 1)),
      PowerTransformer_transform = (\<lambda>params X. Inr X),
      scaler_fit_transform = (\<lambda>cls X. Inr (X, 2)),
      scaler_transform = (\<lambda>est X. Inr X),
      OneHotEncoder_fit_transform = (\<lambda>drop_first d names. Inr (indicators d, names, 3)),
      OneHotEncoder_transform = (\<lambda>params d. Inr (indicators d)),
      PCA_fit = (\<lambda>X. Inr 4),
      explained_variance_ratio = (\<lambda>params. [0.8, 0.16, 0.02, 0.01, 0.005, 0.005]),
      PCA_fit_transform = (\<lambda>n X. Inr (X\<lparr>cols := take (nat n) (cols X)\<rparr>, 5)),
      PCA_transform = (\<lambda>params X. Inr X),
      TSNE_fit_transform = (\<lambda>n perplexity seed X. Inr (X\<lparr>cols := take (nat n) (cols X)\<rparr>, 6))\<rparr>"

text \<open>The default configuration with the missing-values check switched off.\<close>

definition unchecked_config :: config where
  "unchecked_config =
     default_config\<lparr>validation := (validation default_config)\<lparr>check_missing_values := False\<rparr>\<rparr>"

text \<open>
  A dataset with a missing entry in a numerical column, in a categorical column and in a
  numerical identifier column, and a dataset without missing entries.
\<close>

definition sample_frame :: dataframe where
  "sample_frame =
     \<lparr>index = [0, 1, 2],
      columns =
        [\<lparr>label = ''CompanyID'', dtype = Number ''float64'', cells = [Some (Num 1), Some (Num 2), Some (Num 3)]\<rparr>,
         \<lparr>label = ''Industry'', dtype = Object,
          cells = [Some (Str ''Technology''), None, Some (Str ''Energy'')]\<rparr>,
         \<lparr>label = ''Year'', dtype = Number ''float64'', cells = [Some (Num 2020), None, Some (Num 2021)]\<rparr>,
         \<lparr>label = ''Revenue'', dtype = Number ''float64'', cells = [Some (Num 10), None, Some (Num 30)]\<rparr>]\<rparr>"

definition complete_frame :: dataframe where
  "complete_frame =
     \<lparr>index = [0, 1],
      columns =
        [\<lparr>label = ''Revenue'', dtype = Number ''float64'', cells = [Some (Num 10), Some (Num 20)]\<rparr>,
         \<lparr>label = ''Industry'', dtype = Object,
          cells = [Some (Str ''Technology''), Some (Str ''Energy'')]\<rparr>]\<rparr>"

text \<open>
  An array whose first column alone has a skewness at the default threshold or above, an
  array without such a column, and an array of six columns.
\<close>

definition skewed_array :: ndarray where
  "skewed_array =
     \<lparr>nrows = 2, cols = [[Some (Num 2), Some (Num 4)], [Some (Num 0.5), Some (Num 3)]]\<rparr>"





text \<open>The default configuration with a scaling method that is not a recognised name.\<close>

definition zscore_config :: config where
  "zscore_config =
     default_config\<lparr>preprocessing := (preprocessing default_config)\<lparr>scaling_method := ''zscore''\<rparr>\<rparr>"

lemmas py_defs = py_bind_def py_seq_def py_return_def py_raise_def py_lift_def py_exec_def
  copy_def deref_def modify_def get_config_def log_step_def logger_info_def logger_warning_def

text \<open>
  The effect of one imputation loop on a dataframe when every fill writes through, stated
  directly: every column whose label is among \<open>cs\<close> is filled with the value \<open>fill_value\<close>
  gives for that column.
\<close>

definition filled ::
  "'f library \<Rightarrow> (column \<Rightarrow> cell) \<Rightarrow> string list \<Rightarrow> dataframe \<Rightarrow> dataframe" where
  "filled lib fill_value cs d =
     d\<lparr>columns := map (\<lambda>c. if label c \<in> set cs then fill_column lib (fill_value c) c else c)
                     (columns d)\<rparr>"

text \<open>The dataframe after one fill has written through.\<close>

definition written :: "'f library \<Rightarrow> dataframe \<Rightarrow> string \<Rightarrow> cell \<Rightarrow> dataframe" where
  "written lib d col v =
     d\<lparr>columns := map (\<lambda>c. if label c = col then fill_column lib v c else c) (columns d)\<rparr>"

text \<open>
  A dataset whose only column is of category dtype, declares two categories, none of them
  \<^verbatim>\<open>'Unknown'\<close>, and has no present value.
\<close>

definition region_frame :: dataframe where
  "region_frame =
     \<lparr>index = [0, 1],
      columns =
        [\<lparr>label = ''Region'', dtype = Category [Str ''EU'', Str ''US''], cells = [None, None]\<rparr>]\<rparr>"

text \<open>The pipeline constructed over \<open>sample_frame\<close>, and the feature types it identifies there.\<close>

definition sample_world :: "nat world" where
  "sample_world = init default_config [sample_frame]"

definition sample_feature_types :: "(string, string list) dict" where
  "sample_feature_types =
     [(''financial_features'', [''Revenue'']), (''esg_features'', []),
      (''environmental_features'', []), (''categorical_features'', [''Industry'']),
      (''identifier_features'', [''CompanyID'', ''Year'']),
      (''numerical_features'', [''Revenue'']),
      (''categorical_features_available'', [''Industry''])]"

text \<open>
  A call keeps the first \<open>n\<close> dataframe objects when, started with at least \<open>n\<close> objects,
  it ends, returning or raising, with those \<open>n\<close> objects unchanged.
\<close>

definition keeps :: "nat \<Rightarrow> ('f, 'a) py \<Rightarrow> bool" where
  "keeps n m =
     (\<forall>w. n \<le> length (heap w) \<longrightarrow>
            n \<le> length (heap (fst (m w))) \<and> take n (heap (fst (m w))) = take n (heap w))"

text \<open>
  Two worlds have the same pipeline when every attribute of \<^verbatim>\<open>self\<close> other than the
  processing log agrees; a call is frozen when it ends, returning or raising, with the same
  pipeline it started with.
\<close>

definition same_self :: "'f world \<Rightarrow> 'f world \<Rightarrow> bool" where
  "same_self w w' =
     (config w' = config w \<and> self_feature_names w' = self_feature_names w \<and>
      fitted w' = fitted w \<and> power_transformer w' = power_transformer w \<and>
      scaler w' = scaler w \<and> categorical_encoder w' = categorical_encoder w \<and>
      pca w' = pca w \<and> tsne w' = tsne w)"

definition frozen :: "('f, 'a) py \<Rightarrow> bool" where
  "frozen m = (\<forall>w. same_self w (fst (m w)))"

text \<open>
  A new dataset for a fitted pipeline: besides the columns seen in fitting it has a
  numerical column \<^verbatim>\<open>Extra\<close> with a missing entry. The pipeline \<open>fitted_world\<close> is the one
  that \<^verbatim>\<open>fit_transform\<close> leaves behind on \<open>sample_frame\<close>, here with the new dataset as its
  only dataframe object. The library \<open>cow_library\<close> is the stand-in library with pandas
  running with copy-on-write.
\<close>

definition new_frame :: dataframe where
  "new_frame =
     \<lparr>index = [0, 1],
      columns =
        [\<lparr>label = ''Revenue'', dtype = Number ''float64'', cells = [Some (Num 7), Some (Num 9)]\<rparr>,
         \<lparr>label = ''Industry'', dtype = Object,
          cells = [Some (Str ''Energy''), Some (Str ''Finance'')]\<rparr>,
         \<lparr>label = ''Extra'', dtype = Number ''float64'', cells = [None, Some (Num 4)]\<rparr>]\<rparr>"

definition cow_library :: "nat library" where
  "cow_library = stub_library\<lparr>copy_on_write := True\<rparr>"

definition fitted_world :: "nat world" where
  "fitted_world =
     sample_world
       \<lparr>self_feature_names :=
          [(''numerical'', [''Revenue'']), (''categorical'', [''Industry'']),
           (''categorical_encoded'', [''Industry'']), (''combined'', [''Revenue'', ''Industry''])],
        fitted := True,
        power_transformer := Some (PowerTransformer, 1),
        scaler := Some (StandardScaler, 2),
        categorical_encoder := Some (OneHotEncoder, 3),
        pca := Some (PCA, 5),
        tsne := Some (TSNE, 6),
        heap := [new_frame]\<rparr>"

section \<open>State errors\<close>

text \<open>
  C5. Called on a pipeline that has not been fitted, \<^verbatim>\<open>transform\<close> and
  \<^verbatim>\<open>save_pipeline\<close> each raise a \<^verbatim>\<open>ValueError\<close> at once and leave the whole state as it
  was: the attributes of the pipeline, the dataframes, the logger, the files and the
  directories.
\<close>

theorem unfitted_calls_abort:
  "\<not> fitted w \<Longrightarrow>
     transform lib df w =
       (w, Inl (ValueError ''Pipeline must be fitted before transforming new data'')) \<and>
     save_pipeline filepath w = (w, Inl (ValueError ''Pipeline must be fitted before saving''))"
  by (simp add: transform_def save_pipeline_def py_bind_def py_raise_def)

theorem unfitted_calls_abort_witness:
  "\<not> fitted (init default_config [] :: nat world) \<and>
   transform stub_library 0 (init default_config []) =
     (init default_config [],
      Inl (ValueError ''Pipeline must be fitted before transforming new data'')) \<and>
   save_pipeline ''../Models/esg'' (init default_config [] :: nat world) =
     (init default_config [], Inl (ValueError ''Pipeline must be fitted before saving''))"
  using unfitted_calls_abort [of "init default_config [] :: nat world" stub_library 0 "''../Models/esg''"]
  by (simp add: init_def)

section \<open>Output validation\<close>

text \<open>
  C8. With the missing-values check switched off, \<^verbatim>\<open>validate_output\<close> returns the empty
  mapping at once, whatever the other two toggles say: neither the feature-range check nor
  the shape check runs, and no log entry is written. The three checks are therefore not
  independently toggleable.
\<close>

theorem validate_output_gated:
  "\<not> check_missing_values (validation (config w)) \<Longrightarrow> validate_output lib results w = (w, Inr [])"
  by (simp add: validate_output_def py_bind_def py_return_def)

theorem validate_output_gated_witness:
  "\<not> check_missing_values (validation (config (init unchecked_config [] :: nat world))) \<and>
   check_feature_ranges (validation (config (init unchecked_config [] :: nat world))) \<and>
   check_shape_consistency (validation (config (init unchecked_config [] :: nat world))) \<and>
   validate_output stub_library [(''scaled'', complete_frame), (''combined'', sample_frame)]
     (init unchecked_config []) = (init unchecked_config [], Inr [])"
  using validate_output_gated [of "init unchecked_config [] :: nat world" stub_library
      "[(''scaled'', complete_frame), (''combined'', sample_frame)]"]
  by (simp add: init_def unchecked_config_def default_config_def)

section \<open>Imputation\<close>

lemma no_missing_filter:
  "total_missing d = 0 \<Longrightarrow> filter (\<lambda>c. isnull_sum (cells c) > 0) (columns d) = []"
  by (auto simp: total_missing_def filter_empty_conv)

text \<open>
  C7. On a dataset without missing values the imputation stage runs and returns a new
  dataframe object identical to its input (same index, same columns in the same order, same
  values), and records the log entry ``Missing Values Check: No missing values found''.
\<close>

theorem imputation_identity:
  "total_missing (heap w ! df) = 0 \<Longrightarrow>
     handle_missing_values lib df feature_types w =
       (w\<lparr>heap := heap w @ [heap w ! df],
          preprocessing_log := preprocessing_log w @
            [\<lparr>step = ''Missing Values Check'', details = [S ''No missing values found'']\<rparr>],
          logger := logger w @
            [(INFO, [S ''Missing Values Check'', S '': '', S ''No missing values found''])]\<rparr>,
        Inr (length (heap w)))"
  by (simp add: handle_missing_values_def py_bind_def py_seq_def py_return_def copy_def deref_def
      get_config_def log_step_def no_missing_filter Let_def)

theorem imputation_identity_witness:
  "total_missing (heap (init default_config [complete_frame] :: nat world) ! 0) = 0 \<and>
   snd (handle_missing_values stub_library 0 [] (init default_config [complete_frame])) = Inr 1 \<and>
   heap (fst (handle_missing_values stub_library 0 [] (init default_config [complete_frame]))) ! 1
     = complete_frame \<and>
   last (preprocessing_log
     (fst (handle_missing_values stub_library 0 [] (init default_config [complete_frame])))) =
     \<lparr>step = ''Missing Values Check'', details = [S ''No missing values found'']\<rparr>"
proof -
  have h: "total_missing (heap (init default_config [complete_frame] :: nat world) ! 0) = 0"
    by (simp add: init_def complete_frame_def total_missing_def isnull_sum_def)
  show ?thesis
    using h imputation_identity [OF h, of stub_library "[]"]
    by (simp add: init_def)
qed

text \<open>
  C2, as stated, fails: a missing entry in the numerical identifier column \<^verbatim>\<open>Year\<close>, which
  is in neither feature list, is still missing after the stage.
\<close>

theorem imputation_leaves_missing_counterexample:
  "snd (py_bind (identify_feature_types 0) (handle_missing_values stub_library 0)
          (init default_config [sample_frame])) = Inr 1 \<and>
   total_missing (heap (fst (py_bind (identify_feature_types 0) (handle_missing_values stub_library 0)
          (init default_config [sample_frame]))) ! 1) = 1"
  by (simp add: identify_feature_types_def handle_missing_values_def py_defs init_def
      default_config_def sample_frame_def dict_get_def Let_def isnull_sum_def getitem_def
      numerical_fill_value_def categorical_fill_value_def mode_or_def stub_library_def
      first_present_def present_def fillna_inplace_def fill_error_def fill_column_def fillna_def
      total_missing_def)

text \<open>
  The stage does not always return: a categorical column without any present value has
  no mode, the fill value is \<^verbatim>\<open>'Unknown'\<close>, and a column of category dtype that does not
  declare that category refuses it.
\<close>

lemma unknown_refused_by_category:
  "snd (py_bind (identify_feature_types 0) (handle_missing_values stub_library 0)
          (init default_config [region_frame])) =
     Inl (TypeError ''Cannot setitem on a Categorical with a new category, set the categories first'')"
  by (simp add: identify_feature_types_def handle_missing_values_def py_defs init_def
      default_config_def region_frame_def dict_get_def Let_def isnull_sum_def getitem_def
      numerical_fill_value_def categorical_fill_value_def mode_or_def stub_library_def
      first_present_def present_def fillna_inplace_def fill_error_def fill_column_def fillna_def)

lemma find_label:
  "distinct (map label cs) \<Longrightarrow> c \<in> set cs \<Longrightarrow> find (\<lambda>x. label x = label c) cs = Some c"
  by (induction cs) (auto simp: rev_image_eqI)

lemma getitem_distinct:
  "distinct (map label (columns d)) \<Longrightarrow> c \<in> set (columns d) \<Longrightarrow> getitem d (label c) = Inr c"
  by (simp add: getitem_def find_label)

lemma label_fill_column: "label (fill_column lib v c) = label c"
  by (simp add: fill_column_def)

lemma cells_fill_column: "cells (fill_column lib v c) = fillna v (cells c)"
  by (simp add: fill_column_def)

lemma filled_Nil: "filled lib vf [] d = d"
  by (simp add: filled_def)

lemma filled_labels: "map label (columns (filled lib vf cs d)) = map label (columns d)"
  by (simp add: filled_def comp_def label_fill_column)

lemma written_labels: "map label (columns (written lib d col v)) = map label (columns d)"
  by (simp add: written_def comp_def label_fill_column)

lemma fillna_inplace_written:
  "getitem d col = Inr s \<Longrightarrow> fill_error lib (dtype s) v = None \<Longrightarrow> \<not> copy_on_write lib \<Longrightarrow>
   fillna_inplace lib d col v = Inr (written lib d col v)"
  by (simp add: fillna_inplace_def written_def)

lemma written_other:
  "c \<in> set (columns (written lib d col v)) \<Longrightarrow> label c \<noteq> col \<Longrightarrow> c \<in> set (columns d)"
  by (auto simp: written_def label_fill_column split: if_splits)

lemma filled_other:
  "c \<in> set (columns (filled lib vf cs d)) \<Longrightarrow> label c \<notin> set cs \<Longrightarrow> c \<in> set (columns d)"
  by (auto simp: filled_def label_fill_column split: if_splits)

lemma filled_step:
  assumes "distinct (map label (columns d))" "c0 \<in> set (columns d)" "label c0 \<notin> set rest"
  shows "filled lib vf rest (written lib d (label c0) (vf c0)) = filled lib vf (label c0 # rest) d"
proof -
  have "\<And>c. c \<in> set (columns d) \<Longrightarrow> label c = label c0 \<Longrightarrow> c = c0"
    using assms(1,2) by (meson distinct_map inj_onD)
  then have "map ((\<lambda>c. if label c \<in> set rest then fill_column lib (vf c) c else c) \<circ>
                 (\<lambda>c. if label c = label c0 then fill_column lib (vf c0) c else c)) (columns d) =
        map (\<lambda>c. if label c \<in> set (label c0 # rest) then fill_column lib (vf c) c else c)
          (columns d)"
    using assms(3) by (intro map_cong) (auto simp: label_fill_column)
  then show ?thesis
    by (simp add: filled_def written_def)
qed

text \<open>
  One loop, run without copy-on-write over distinct columns of \<open>df_clean\<close> for each of
  which the fill value is computed and accepted, returns and leaves \<open>df_clean\<close> filled.
\<close>

lemma impute_loop_filled:
  assumes "r < length (heap w)" "distinct (map label (columns (heap w ! r)))"
    "set cs \<subseteq> label ` set (columns (heap w ! r))" "distinct cs" "\<not> copy_on_write lib"
    "\<forall>c\<in>set (columns (heap w ! r)). label c \<in> set cs \<longrightarrow>
        fill c = Inr (vf c) \<and> fill_error lib (dtype c) (vf c) = None"
  shows "\<exists>w' info'. impute_loop lib fill strategy r cs info w = (w', Inr info') \<and>
           length (heap w') = length (heap w) \<and> heap w' ! r = filled lib vf cs (heap w ! r)"
  using assms
proof (induction cs arbitrary: w info)
  case Nil
  then show ?case by (simp add: py_return_def filled_Nil)
next
  case (Cons col rest)
  let ?d = "heap w ! r"
  from Cons.prems(3) obtain c0 where c0: "c0 \<in> set (columns ?d)" "label c0 = col" by auto
  have g: "getitem ?d col = Inr c0"
    using getitem_distinct [OF Cons.prems(2) c0(1)] c0(2) by simp
  have f: "fill c0 = Inr (vf c0)" and a: "fill_error lib (dtype c0) (vf c0) = None"
    using Cons.prems(6) c0 by auto
  have fi: "fillna_inplace lib ?d col (vf c0) = Inr (written lib ?d col (vf c0))"
    using fillna_inplace_written [OF g a Cons.prems(5)] .
  define w1 where "w1 = w\<lparr>heap := (heap w)[r := written lib ?d col (vf c0)]\<rparr>"
  have step: "impute_loop lib fill strategy r (col # rest) info w =
      impute_loop lib fill strategy r rest (AList.update col (strategy, vf c0) info) w1"
    by (simp add: py_defs g f fi w1_def)
  have h1: "heap w1 ! r = written lib ?d col (vf c0)" and l1: "length (heap w1) = length (heap w)"
    using Cons.prems(1) by (simp_all add: w1_def)
  have p1: "r < length (heap w1)" using Cons.prems(1) l1 by simp
  have p2: "distinct (map label (columns (heap w1 ! r)))"
    using Cons.prems(2) by (simp add: h1 written_labels)
  have p3: "set rest \<subseteq> label ` set (columns (heap w1 ! r))"
  proof -
    have "label ` set (columns (heap w1 ! r)) = set (map label (columns (heap w1 ! r)))" by simp
    also have "\<dots> = set (map label (columns ?d))" by (simp only: h1 written_labels)
    finally show ?thesis using Cons.prems(3) by auto
  qed
  have p4: "distinct rest" using Cons.prems(4) by simp
  have p6: "\<forall>c\<in>set (columns (heap w1 ! r)). label c \<in> set rest \<longrightarrow>
        fill c = Inr (vf c) \<and> fill_error lib (dtype c) (vf c) = None"
  proof (intro ballI impI)
    fix c assume c: "c \<in> set (columns (heap w1 ! r))" "label c \<in> set rest"
    from c(2) Cons.prems(4) have "label c \<noteq> col" by auto
    with c(1) have "c \<in> set (columns ?d)" unfolding h1 by (rule written_other)
    with Cons.prems(6) c(2) show "fill c = Inr (vf c) \<and> fill_error lib (dtype c) (vf c) = None"
      by simp
  qed
  from Cons.IH [OF p1 p2 p3 p4 Cons.prems(5) p6, of "AList.update col (strategy, vf c0) info"]
  obtain w' info' where r: "impute_loop lib fill strategy r rest (AList.update col (strategy, vf c0) info) w1 = (w', Inr info')"
    "length (heap w') = length (heap w1)" "heap w' ! r = filled lib vf rest (heap w1 ! r)" by blast
  have "filled lib vf rest (heap w1 ! r) = filled lib vf (col # rest) ?d"
    using filled_step [OF Cons.prems(2) c0(1), of rest lib vf] Cons.prems(4) c0(2) by (simp add: h1)
  with r l1 step show ?case by simp
qed

lemma impute_loop_guard:
  "(if cs \<noteq> [] then impute_loop lib fill strategy r cs info else py_return info) =
   impute_loop lib fill strategy r cs info"
  by (cases cs) simp_all

lemma label_in_missing:
  assumes "distinct (map label cs)" "x \<in> set cs"
  shows "label x \<in> set (map label (filter (\<lambda>c. isnull_sum (cells c) > 0) cs)) \<longleftrightarrow>
         isnull_sum (cells x) > 0"
proof -
  have "\<And>c. c \<in> set cs \<Longrightarrow> label c = label x \<Longrightarrow> c = x"
    using assms by (meson distinct_map inj_onD)
  then show ?thesis using assms(2) by auto
qed

lemma handle_missing_values_frame:
  assumes cow: "\<not> copy_on_write lib"
    and dl: "distinct (map label (columns (heap w ! df)))"
    and n: "dict_get feature_types ''numerical_features'' = Inr nums"
    and c: "dict_get feature_types ''categorical_features_available'' = Inr cats"
    and dj: "set nums \<inter> set cats = {}"
    and nf: "\<forall>c\<in>set (columns (heap w ! df)). label c \<in> set nums \<and> 0 < isnull_sum (cells c) \<longrightarrow>
        numerical_fill_value lib (missing_strategy_numerical (preprocessing (config w))) c =
          Inr (vn c) \<and> fill_error lib (dtype c) (vn c) = None"
    and cf: "\<forall>c\<in>set (columns (heap w ! df)). label c \<in> set cats \<and> 0 < isnull_sum (cells c) \<longrightarrow>
        categorical_fill_value lib (missing_strategy_categorical (preprocessing (config w))) c =
          Inr (vc c) \<and> fill_error lib (dtype c) (vc c) = None"
  shows "\<exists>w'. handle_missing_values lib df feature_types w = (w', Inr (length (heap w))) \<and>
     heap w' ! length (heap w) =
       filled lib vc
         (filter (\<lambda>col. col \<in> set cats)
            (map label (filter (\<lambda>c. isnull_sum (cells c) > 0) (columns (heap w ! df)))))
         (filled lib vn
            (filter (\<lambda>col. col \<in> set nums)
               (map label (filter (\<lambda>c. isnull_sum (cells c) > 0) (columns (heap w ! df)))))
            (heap w ! df))"
proof -
  let ?d = "heap w ! df"
  let ?r = "length (heap w)"
  let ?missing = "map label (filter (\<lambda>c. isnull_sum (cells c) > 0) (columns ?d))"
  let ?nm = "filter (\<lambda>col. col \<in> set nums) ?missing"
  let ?cm = "filter (\<lambda>col. col \<in> set cats) ?missing"
  let ?ns = "missing_strategy_numerical (preprocessing (config w))"
  let ?cs = "missing_strategy_categorical (preprocessing (config w))"
  let ?nfill = "numerical_fill_value lib ?ns"
  let ?cfill = "categorical_fill_value lib ?cs"
  have dm: "distinct ?missing"
    using dl by (simp add: distinct_map_filter)
  have sm: "set ?missing \<subseteq> label ` set (columns ?d)" by auto
  have col: "label x \<in> set ?missing \<longleftrightarrow> isnull_sum (cells x) > 0" if "x \<in> set (columns ?d)" for x
    using label_in_missing [OF dl that] .
  show ?thesis
  proof (cases "?missing = []")
    case True
    then have "filter (\<lambda>c. isnull_sum (cells c) > 0) (columns ?d) = []" by simp
    then show ?thesis
      by (simp add: handle_missing_values_def py_defs Let_def filled_Nil)
  next
    case False
    let ?w1 = "w\<lparr>heap := heap w @ [?d],
        preprocessing_log := preprocessing_log w @
          [\<lparr>step = ''Missing Values Detection'',
            details = [S ''Found missing values in '',
                       N (int (length (filter (\<lambda>c. isnull_sum (cells c) > 0) (columns ?d)))),
                       S '' features'']\<rparr>],
        logger := logger w @
          [(INFO, [S ''Missing Values Detection'', S '': '', S ''Found missing values in '',
                   N (int (length (filter (\<lambda>c. isnull_sum (cells c) > 0) (columns ?d)))),
                   S '' features''])]\<rparr>"
    have h1: "heap ?w1 ! ?r = ?d" "?r < length (heap ?w1)" by simp_all
    have a1: "distinct (map label (columns (heap ?w1 ! ?r)))" using dl by simp
    have b1: "set ?nm \<subseteq> label ` set (columns (heap ?w1 ! ?r))" using sm by auto
    have c1: "distinct ?nm" using dm by simp
    have e1: "\<forall>c\<in>set (columns (heap ?w1 ! ?r)). label c \<in> set ?nm \<longrightarrow>
        ?nfill c = Inr (vn c) \<and> fill_error lib (dtype c) (vn c) = None"
      unfolding h1(1) using nf col by auto
    from impute_loop_filled [OF h1(2) a1 b1 c1 cow e1, of ?ns "[]"]
    obtain w2 info2 where
      r2: "impute_loop lib ?nfill ?ns ?r ?nm [] ?w1 = (w2, Inr info2)"
      and l2: "length (heap w2) = length (heap ?w1)"
      and h2: "heap w2 ! ?r = filled lib vn ?nm ?d"
      unfolding h1(1) by blast
    have p2: "?r < length (heap w2)" using l2 h1 by simp
    have d2: "distinct (map label (columns (heap w2 ! ?r)))"
      using dl by (simp add: h2 filled_labels)
    have s2: "set ?cm \<subseteq> label ` set (columns (heap w2 ! ?r))"
    proof -
      have "label ` set (columns (heap w2 ! ?r)) = set (map label (columns (heap w2 ! ?r)))" by simp
      also have "\<dots> = set (map label (columns ?d))" by (simp only: h2 filled_labels)
      finally show ?thesis using sm by auto
    qed
    have c2: "distinct ?cm" using dm by simp
    have e2: "\<forall>c\<in>set (columns (heap w2 ! ?r)). label c \<in> set ?cm \<longrightarrow>
        ?cfill c = Inr (vc c) \<and> fill_error lib (dtype c) (vc c) = None"
    proof (intro ballI impI)
      fix x assume x: "x \<in> set (columns (heap w2 ! ?r))" "label x \<in> set ?cm"
      from x(2) dj have "label x \<notin> set ?nm" by auto
      with x(1) have xd: "x \<in> set (columns ?d)" unfolding h2 by (rule filled_other)
      from x(2) col [OF xd] have "label x \<in> set cats \<and> 0 < isnull_sum (cells x)" by auto
      with cf xd show "?cfill x = Inr (vc x) \<and> fill_error lib (dtype x) (vc x) = None" by blast
    qed
    from impute_loop_filled [OF p2 d2 s2 c2 cow e2, of ?cs info2]
    obtain w3 info3 where
      r3: "impute_loop lib ?cfill ?cs ?r ?cm info2 w2 = (w3, Inr info3)"
      and h3: "heap w3 ! ?r = filled lib vc ?cm (heap w2 ! ?r)"
      by blast
    show ?thesis
      using False r2 r3
      by (simp add: handle_missing_values_def py_bind_def py_seq_def py_lift_def py_return_def
          copy_def deref_def get_config_def log_step_def n c Let_def impute_loop_guard h3 h2)
  qed
qed

lemma isnull_sum_fillna_Some: "isnull_sum (fillna (Some v) xs) = 0"
  by (induction xs) (auto simp: isnull_sum_def fillna_def split: option.splits)

lemma fillna_complete: "isnull_sum xs = 0 \<Longrightarrow> fillna v xs = xs"
  by (induction xs) (auto simp: isnull_sum_def fillna_def split: option.splits if_splits)

lemma length_fillna: "length (fillna v xs) = length xs"
  by (simp add: fillna_def)

lemma categorical_fill_value_Some: "categorical_fill_value lib strategy s = Inr v \<Longrightarrow> v \<noteq> None"
  by (auto simp: categorical_fill_value_def mode_or_def split: if_splits sum.splits list.splits)

text \<open>
  The two lists that the classification stage hands to the imputation stage: the numeric
  columns that are not identifiers, and the object and category columns. On a dataset with
  distinct column labels they have no name in common.
\<close>

lemma dict_get_update:
  "dict_get (AList.update k v d) k' = (if k' = k then Inr v else dict_get d k')"
  by (simp add: dict_get_def update_conv')

lemma identify_feature_types_lists:
  assumes "identify_feature_types df w = (w', Inr feature_types)"
  shows "\<exists>identifiers.
     dict_get feature_types ''numerical_features'' =
       Inr (filter (\<lambda>col. col \<notin> set identifiers)
              (map label (filter (\<lambda>c. is_number (dtype c)) (columns (heap w ! df))))) \<and>
     dict_get feature_types ''categorical_features_available'' =
       Inr (map label (filter (\<lambda>c. is_object_or_category (dtype c)) (columns (heap w ! df))))"
  using assms
  by (auto simp: identify_feature_types_def py_defs Let_def dict_get_update
      split: sum.splits)

lemma number_not_categorical: "is_number t \<Longrightarrow> \<not> is_object_or_category t"
  by (cases t) simp_all

lemma identified_lists_disjoint:
  assumes "identify_feature_types df w = (w', Inr feature_types)"
    and "distinct (map label (columns (heap w ! df)))"
    and "dict_get feature_types ''numerical_features'' = Inr nums"
    and "dict_get feature_types ''categorical_features_available'' = Inr cats"
  shows "set nums \<inter> set cats = {}"
proof -
  from identify_feature_types_lists [OF assms(1)] assms(3,4) obtain identifiers where
    n: "nums = filter (\<lambda>col. col \<notin> set identifiers)
              (map label (filter (\<lambda>c. is_number (dtype c)) (columns (heap w ! df))))"
    and c: "cats = map label (filter (\<lambda>c. is_object_or_category (dtype c)) (columns (heap w ! df)))"
    by auto
  show ?thesis
  proof (rule ccontr)
    assume "set nums \<inter> set cats \<noteq> {}"
    then obtain l where "l \<in> set nums" "l \<in> set cats" by auto
    then obtain c1 c2 where c1: "c1 \<in> set (columns (heap w ! df))" "is_number (dtype c1)" "label c1 = l"
      and c2: "c2 \<in> set (columns (heap w ! df))" "is_object_or_category (dtype c2)" "label c2 = l"
      unfolding n c by auto
    from assms(2) have "inj_on label (set (columns (heap w ! df)))" by (simp add: distinct_map)
    from inj_onD [OF this _ c1(1) c2(1)] c1(3) c2(3) have "c1 = c2" by simp
    with c1(2) c2(2) number_not_categorical show False by blast
  qed
qed

text \<open>
  C2, amended. Let pandas run without copy-on-write, so that a fill on a column access
  writes through to the dataframe; let the dataset have distinct column labels and the two
  feature lists have no name in common, as the lists of the classification stage have; and
  let, for each listed column with missing values, the fill value be computed without error
  and be accepted by the dtype of the column (a categorical column accepts only its declared
  categories). Then the imputation stage returns a new dataframe with the same index and the
  same column labels in the same order, in which every column named in the categorical list has no
  missing value, every column named in the numerical list has no missing value provided the
  fill value computed for it is not itself missing, and every column named in neither list,
  like every column without missing values, is unchanged: a column in neither list keeps
  its missing values.
\<close>

theorem imputation_fills_listed_columns:
  assumes cow: "\<not> copy_on_write lib"
    and dl: "distinct (map label (columns (heap w ! df)))"
    and n: "dict_get feature_types ''numerical_features'' = Inr nums"
    and c: "dict_get feature_types ''categorical_features_available'' = Inr cats"
    and dj: "set nums \<inter> set cats = {}"
    and nf: "\<forall>c\<in>set (columns (heap w ! df)). label c \<in> set nums \<and> 0 < isnull_sum (cells c) \<longrightarrow>
        (\<exists>v. numerical_fill_value lib (missing_strategy_numerical (preprocessing (config w))) c =
               Inr v \<and> fill_error lib (dtype c) v = None)"
    and cf: "\<forall>c\<in>set (columns (heap w ! df)). label c \<in> set cats \<and> 0 < isnull_sum (cells c) \<longrightarrow>
        (\<exists>v. categorical_fill_value lib (missing_strategy_categorical (preprocessing (config w))) c =
               Inr v \<and> fill_error lib (dtype c) v = None)"
  shows "\<exists>w'. handle_missing_values lib df feature_types w = (w', Inr (length (heap w))) \<and>
     index (heap w' ! length (heap w)) = index (heap w ! df) \<and>
     list_all2 (\<lambda>c c'. label c' = label c \<and> length (cells c') = length (cells c) \<and>
         (label c \<in> set cats \<longrightarrow> isnull_sum (cells c') = 0) \<and>
         (label c \<in> set nums \<and>
          numerical_fill_value lib (missing_strategy_numerical (preprocessing (config w))) c
            \<noteq> Inr None \<longrightarrow> isnull_sum (cells c') = 0) \<and>
         (label c \<notin> set nums \<and> label c \<notin> set cats \<longrightarrow> c' = c) \<and>
         (isnull_sum (cells c) = 0 \<longrightarrow> c' = c))
       (columns (heap w ! df)) (columns (heap w' ! length (heap w)))"
proof -
  let ?d = "heap w ! df"
  let ?missing = "map label (filter (\<lambda>c. isnull_sum (cells c) > 0) (columns ?d))"
  let ?nfill = "numerical_fill_value lib (missing_strategy_numerical (preprocessing (config w)))"
  let ?cfill = "categorical_fill_value lib (missing_strategy_categorical (preprocessing (config w)))"
  let ?vn = "\<lambda>c. projr (?nfill c)"
  let ?vc = "\<lambda>c. projr (?cfill c)"
  have nf': "\<forall>c\<in>set (columns ?d). label c \<in> set nums \<and> 0 < isnull_sum (cells c) \<longrightarrow>
        ?nfill c = Inr (?vn c) \<and> fill_error lib (dtype c) (?vn c) = None"
    using nf by fastforce
  have cf': "\<forall>c\<in>set (columns ?d). label c \<in> set cats \<and> 0 < isnull_sum (cells c) \<longrightarrow>
        ?cfill c = Inr (?vc c) \<and> fill_error lib (dtype c) (?vc c) = None"
    using cf by fastforce
  from handle_missing_values_frame [OF cow dl n c dj nf' cf']
  obtain w' where r: "handle_missing_values lib df feature_types w = (w', Inr (length (heap w)))"
    and h: "heap w' ! length (heap w) =
       filled lib ?vc (filter (\<lambda>col. col \<in> set cats) ?missing)
         (filled lib ?vn (filter (\<lambda>col. col \<in> set nums) ?missing) ?d)"
    by blast
  have col: "label x \<in> set ?missing \<longleftrightarrow> isnull_sum (cells x) > 0" if "x \<in> set (columns ?d)" for x
    using label_in_missing [OF dl that] .
  have per: "label x' = label x \<and> length (cells x') = length (cells x) \<and>
         (label x \<in> set cats \<longrightarrow> isnull_sum (cells x') = 0) \<and>
         (label x \<in> set nums \<and> ?nfill x \<noteq> Inr None \<longrightarrow> isnull_sum (cells x') = 0) \<and>
         (label x \<notin> set nums \<and> label x \<notin> set cats \<longrightarrow> x' = x) \<and>
         (isnull_sum (cells x) = 0 \<longrightarrow> x' = x)"
    if x: "x \<in> set (columns ?d)"
      and x': "x' = (if label x \<in> set cats \<and> label x \<in> set ?missing
                     then fill_column lib (?vc x) x
                     else if label x \<in> set nums \<and> label x \<in> set ?missing
                     then fill_column lib (?vn x) x else x)" for x x'
  proof (cases "0 < isnull_sum (cells x)")
    case False
    then have "x' = x" using x' col [OF x] by simp
    with False show ?thesis by simp
  next
    case True
    note m = True
    show ?thesis
    proof (cases "label x \<in> set cats")
      case True
      with cf' x m have "?cfill x = Inr (?vc x)" by blast
      from categorical_fill_value_Some [OF this] obtain v where "?vc x = Some v" by auto
      with True m x' col [OF x] dj show ?thesis
        by (auto simp: isnull_sum_fillna_Some length_fillna label_fill_column cells_fill_column)
    next
      case False
      note nc = False
      show ?thesis
      proof (cases "label x \<in> set nums")
        case True
        with nf' x m have e: "?nfill x = Inr (?vn x)" by blast
        have xe: "x' = fill_column lib (?vn x) x"
          using True nc m x' col [OF x] by simp
        have "isnull_sum (cells x') = 0" if "?nfill x \<noteq> Inr None"
        proof -
          from that e obtain v where "?vn x = Some v" by (cases "?vn x") auto
          then show ?thesis by (simp add: xe isnull_sum_fillna_Some cells_fill_column)
        qed
        with True nc m xe show ?thesis
          by (simp add: length_fillna label_fill_column cells_fill_column)
      next
        case False
        with nc x' have "x' = x" by simp
        with False nc m show ?thesis by simp
      qed
    qed
  qed
  have cols: "columns (heap w' ! length (heap w)) =
      map (\<lambda>x. if label x \<in> set cats \<and> label x \<in> set ?missing
               then fill_column lib (?vc x) x
               else if label x \<in> set nums \<and> label x \<in> set ?missing
               then fill_column lib (?vn x) x else x) (columns ?d)"
    unfolding h filled_def using dj by (auto intro!: map_cong simp: label_fill_column)
  have "list_all2 (\<lambda>c c'. label c' = label c \<and> length (cells c') = length (cells c) \<and>
         (label c \<in> set cats \<longrightarrow> isnull_sum (cells c') = 0) \<and>
         (label c \<in> set nums \<and> ?nfill c \<noteq> Inr None \<longrightarrow> isnull_sum (cells c') = 0) \<and>
         (label c \<notin> set nums \<and> label c \<notin> set cats \<longrightarrow> c' = c) \<and>
         (isnull_sum (cells c) = 0 \<longrightarrow> c' = c))
       (columns ?d) (columns (heap w' ! length (heap w)))"
    unfolding cols list_all2_map2
    by (rule list_all2_same [THEN iffD2]) (use per in blast)
  moreover have "index (heap w' ! length (heap w)) = index ?d"
    by (simp add: h filled_def)
  ultimately show ?thesis using r by blast
qed

lemma sample_identified:
  "identify_feature_types 0 sample_world =
     (sample_world\<lparr>preprocessing_log := [\<lparr>step = ''Feature Identification'',
           details = [S ''Numerical: '', N 1, S '', Categorical: '', N 1]\<rparr>],
        logger := [(INFO, [S ''ESG Preprocessing Pipeline initialized'']),
          (INFO, [S ''Feature Identification'', S '': '', S ''Numerical: '', N 1,
             S '', Categorical: '', N 1])]\<rparr>, Inr sample_feature_types)"
  by (simp add: identify_feature_types_def py_defs sample_world_def init_def default_config_def
      sample_frame_def dict_get_def Let_def sample_feature_types_def)

theorem imputation_fills_listed_columns_witness:
  "\<not> copy_on_write stub_library \<and>
   distinct (map label (columns (heap sample_world ! 0))) \<and>
   dict_get sample_feature_types ''numerical_features'' = Inr [''Revenue''] \<and>
   dict_get sample_feature_types ''categorical_features_available'' = Inr [''Industry''] \<and>
   (\<exists>w'. handle_missing_values stub_library 0 sample_feature_types sample_world =
            (w', Inr (length (heap sample_world))) \<and>
     index (heap w' ! length (heap sample_world)) = index (heap sample_world ! 0) \<and>
     list_all2 (\<lambda>c c'. label c' = label c \<and> length (cells c') = length (cells c) \<and>
         (label c \<in> set [''Industry''] \<longrightarrow> isnull_sum (cells c') = 0) \<and>
         (label c \<in> set [''Revenue''] \<and>
          numerical_fill_value stub_library
            (missing_strategy_numerical (preprocessing (config sample_world))) c
            \<noteq> Inr None \<longrightarrow> isnull_sum (cells c') = 0) \<and>
         (label c \<notin> set [''Revenue''] \<and> label c \<notin> set [''Industry''] \<longrightarrow> c' = c) \<and>
         (isnull_sum (cells c) = 0 \<longrightarrow> c' = c))
       (columns (heap sample_world ! 0)) (columns (heap w' ! length (heap sample_world))))"
proof -
  have h0: "\<not> copy_on_write stub_library" by (simp add: stub_library_def)
  have h1: "distinct (map label (columns (heap sample_world ! 0)))"
    by (simp add: sample_world_def init_def sample_frame_def)
  have h2: "dict_get sample_feature_types ''numerical_features'' = Inr [''Revenue'']"
    by (simp add: sample_feature_types_def dict_get_def)
  have h3: "dict_get sample_feature_types ''categorical_features_available'' = Inr [''Industry'']"
    by (simp add: sample_feature_types_def dict_get_def)
  have h4: "set [''Revenue''] \<inter> set [''Industry''] = {}" by simp
  have h5: "\<forall>c\<in>set (columns (heap sample_world ! 0)).
      label c \<in> set [''Revenue''] \<and> 0 < isnull_sum (cells c) \<longrightarrow>
        (\<exists>v. numerical_fill_value stub_library
               (missing_strategy_numerical (preprocessing (config sample_world))) c = Inr v \<and>
             fill_error stub_library (dtype c) v = None)"
    by (simp add: sample_world_def init_def sample_frame_def default_config_def
        numerical_fill_value_def stub_library_def fill_error_def)
  have h6: "\<forall>c\<in>set (columns (heap sample_world ! 0)).
      label c \<in> set [''Industry''] \<and> 0 < isnull_sum (cells c) \<longrightarrow>
        (\<exists>v. categorical_fill_value stub_library
               (missing_strategy_categorical (preprocessing (config sample_world))) c = Inr v \<and>
             fill_error stub_library (dtype c) v = None)"
    by (simp add: sample_world_def init_def sample_frame_def default_config_def
        categorical_fill_value_def mode_or_def stub_library_def fill_error_def present_def)
  from imputation_fills_listed_columns [OF h0 h1 h2 h3 h4 h5 h6] h0 h1 h2 h3
  show ?thesis by (intro conjI)
qed

section \<open>The caller's dataframe\<close>

lemma keeps_return: "keeps n (py_return x)"
  and keeps_raise: "keeps n (py_raise e)"
  and keeps_lift: "keeps n (py_lift r)"
  and keeps_get_config: "keeps n get_config"
  and keeps_deref: "keeps n (deref r')"
  and keeps_log_step: "keeps n (log_step stp det)"
  and keeps_logger_info: "keeps n (logger_info msg)"
  and keeps_logger_warning: "keeps n (logger_warning msg)"
  and keeps_read: "keeps n (\<lambda>w. (w, Inr (g w)))"
  by (simp_all add: keeps_def py_defs)

lemma keeps_exec: "(\<And>w. heap (g w) = heap w) \<Longrightarrow> keeps n (py_exec g)"
  by (simp add: keeps_def py_exec_def)

lemma keeps_modify: "n \<le> r \<Longrightarrow> keeps n (modify r g)"
  by (simp add: keeps_def modify_def)

lemma keeps_bind: "keeps n m \<Longrightarrow> (\<And>x. keeps n (f x)) \<Longrightarrow> keeps n (py_bind m f)"
  unfolding keeps_def py_bind_def
  apply (intro allI impI)
  subgoal for w
    apply (cases "m w")
    subgoal for w1 res
      apply (cases res)
       apply (drule spec [of _ w], simp)
      apply (drule spec [of _ w])
      apply (drule_tac x = "projr res" in meta_spec)
      apply (drule spec [of _ w1])
      apply auto
      done
    done
  done

lemma keeps_seq: "keeps n m \<Longrightarrow> keeps n k \<Longrightarrow> keeps n (py_seq m k)"
  by (simp add: py_seq_def keeps_bind)

lemma keeps_copy_bind: "(\<And>r. n \<le> r \<Longrightarrow> keeps n (f r)) \<Longrightarrow> keeps n (py_bind (copy df) f)"
  unfolding keeps_def py_bind_def copy_def
  apply (intro allI impI)
  subgoal for w
    apply (drule meta_spec [of _ "length (heap w)"])
    apply (drule meta_mp, assumption)
    apply (drule spec [of _ "w\<lparr>heap := heap w @ [heap w ! df]\<rparr>"])
    apply simp
    done
  done

lemma keeps_if: "keeps n a \<Longrightarrow> keeps n b \<Longrightarrow> keeps n (if c then a else b)"
  by simp

lemma keeps_case_prod: "(\<And>a b. keeps n (f a b)) \<Longrightarrow> keeps n (case x of (a, b) \<Rightarrow> f a b)"
  by (cases x) simp

lemma keeps_case_option:
  "keeps n a \<Longrightarrow> (\<And>x. keeps n (f x)) \<Longrightarrow> keeps n (case opt of None \<Rightarrow> a | Some x \<Rightarrow> f x)"
  by (cases opt) simp_all

lemma keeps_case_number:
  "(\<And>r. keeps n (f r)) \<Longrightarrow> (\<And>i. keeps n (g i)) \<Longrightarrow>
   keeps n (case num of PyFloat r \<Rightarrow> f r | PyInt i \<Rightarrow> g i)"
  by (cases num) simp_all

lemmas keeps_intros = keeps_return keeps_raise keeps_lift keeps_get_config keeps_deref
  keeps_log_step keeps_logger_info keeps_logger_warning keeps_read keeps_seq keeps_copy_bind
  keeps_bind keeps_if keeps_case_prod keeps_case_option keeps_case_number keeps_modify

lemma keeps_impute_loop: "n \<le> r \<Longrightarrow> keeps n (impute_loop lib fill strategy r cs info)"
  by (induction cs arbitrary: info) (auto intro!: keeps_intros simp: Let_def)

lemma keeps_identify_feature_types: "keeps n (identify_feature_types df)"
  unfolding identify_feature_types_def Let_def by (intro keeps_intros)

lemma keeps_handle_missing_values: "keeps n (handle_missing_values lib df feature_types)"
  unfolding handle_missing_values_def Let_def
  by (intro keeps_intros keeps_impute_loop; assumption)

lemma keeps_apply_power_transformation: "keeps n (apply_power_transformation lib X feature_names)"
  unfolding apply_power_transformation_def Let_def by (intro keeps_intros)

lemma keeps_apply_scaling: "keeps n (apply_scaling lib X)"
  unfolding apply_scaling_def Let_def by (intro keeps_intros)

lemma keeps_encode_categorical_features:
  "keeps n (encode_categorical_features lib df categorical_features)"
  unfolding encode_categorical_features_def Let_def by (intro keeps_intros)

lemma keeps_apply_dimensionality_reduction:
  "keeps n (apply_dimensionality_reduction lib X feature_names)"
  unfolding apply_dimensionality_reduction_def apply_pca_stage_def apply_tsne_stage_def Let_def
  by (intro keeps_intros)

lemma keeps_store_reductions: "keeps n (store_reductions reduction_results idx results)"
  by (induction reduction_results idx results rule: store_reductions.induct)
    (auto intro!: keeps_intros keeps_exec)

lemmas keeps_stages = keeps_identify_feature_types keeps_handle_missing_values
  keeps_apply_power_transformation keeps_apply_scaling keeps_encode_categorical_features
  keeps_apply_dimensionality_reduction keeps_store_reductions

lemma keeps_fit_transform: "keeps n (fit_transform lib df)"
  unfolding fit_transform_def Let_def
  by (intro keeps_intros keeps_stages keeps_exec; (assumption | simp))

lemma keeps_transform: "keeps n (transform lib df)"
  unfolding transform_def Let_def
  by (intro keeps_intros keeps_stages)

text \<open>
  C10. \<^verbatim>\<open>fit_transform\<close> and \<^verbatim>\<open>transform\<close> leave every dataframe object that existed
  before the call, the caller's dataset among them, with the contents it had: imputation
  works on a copy. This holds whether the call returns or raises.
\<close>

theorem caller_dataframes_unchanged:
  "take (length (heap w)) (heap (fst (fit_transform lib df w))) = heap w \<and>
   take (length (heap w)) (heap (fst (transform lib df w))) = heap w"
  using keeps_fit_transform [of "length (heap w)" lib df] keeps_transform [of "length (heap w)" lib df]
  by (simp add: keeps_def)

theorem caller_dataframes_unchanged_witness:
  "heap (fst (fit_transform stub_library 0 sample_world)) ! 0 = sample_frame \<and>
   heap (fst (transform stub_library 0 sample_world)) ! 0 = sample_frame \<and>
   total_missing sample_frame = 3"
proof -
  have h: "heap sample_world = [sample_frame]"
    by (simp add: sample_world_def init_def)
  have "take 1 (heap (fst (fit_transform stub_library 0 sample_world))) = [sample_frame]"
    and "take 1 (heap (fst (transform stub_library 0 sample_world))) = [sample_frame]"
    using caller_dataframes_unchanged [of sample_world stub_library 0] by (simp_all add: h)
  then have "heap (fst (fit_transform stub_library 0 sample_world)) ! 0 = sample_frame"
    and "heap (fst (transform stub_library 0 sample_world)) ! 0 = sample_frame"
    by (metis nth_take zero_less_one nth_Cons_0)+
  moreover have "total_missing sample_frame = 3"
    by (simp add: sample_frame_def total_missing_def isnull_sum_def)
  ultimately show ?thesis by simp
qed

section \<open>Skew reduction\<close>






section \<open>Scaling\<close>

text \<open>
  C9. With a configured scaling method that is none of \<^verbatim>\<open>standard\<close>, \<^verbatim>\<open>robust\<close> and
  \<^verbatim>\<open>minmax\<close>, the scaling stage emits the warning, fits the library's \<^verbatim>\<open>StandardScaler\<close>
  and returns its output with that scaler; where the library's scaler returns an array of
  the shape of its input, so does the stage.
\<close>

theorem unknown_scaling_falls_back:
  assumes "scaling_method (preprocessing (config w)) = method"
    and "method \<noteq> ''standard''" "method \<noteq> ''robust''" "method \<noteq> ''minmax''"
    and "scaler_fit_transform lib StandardScaler X = Inr (X_scaled, params)"
    and "nrows X_scaled = nrows X" "length (cols X_scaled) = length (cols X)"
  shows "apply_scaling lib X w =
      (w\<lparr>preprocessing_log := preprocessing_log w @
            [\<lparr>step = ''Feature Scaling'', details = [S ''Applied '', S ''StandardScaler'']\<rparr>],
         logger := logger w @
            [(WARNING, [S ''Unknown scaling method: '', S method, S ''. Using StandardScaler.'']),
             (INFO, [S ''Feature Scaling'', S '': '', S ''Applied '', S ''StandardScaler''])]\<rparr>,
       Inr (X_scaled, (StandardScaler, params))) \<and>
     nrows (fst (projr (snd (apply_scaling lib X w)))) = nrows X \<and>
     length (cols (fst (projr (snd (apply_scaling lib X w))))) = length (cols X)"
  using assms by (simp add: apply_scaling_def py_defs Let_def class_name_def)

theorem unknown_scaling_falls_back_witness:
  "scaling_method (preprocessing (config (init zscore_config [] :: nat world))) = ''zscore'' \<and>
   ''zscore'' \<noteq> ''standard'' \<and> ''zscore'' \<noteq> ''robust'' \<and> ''zscore'' \<noteq> ''minmax'' \<and>
   scaler_fit_transform stub_library StandardScaler skewed_array = Inr (skewed_array, 2) \<and>
   snd (apply_scaling stub_library skewed_array (init zscore_config [])) =
     Inr (skewed_array, (StandardScaler, 2)) \<and>
   logger (fst (apply_scaling stub_library skewed_array (init zscore_config []))) =
     [(INFO, [S ''ESG Preprocessing Pipeline initialized'']),
      (WARNING, [S ''Unknown scaling method: '', S ''zscore'', S ''. Using StandardScaler.'']),
      (INFO, [S ''Feature Scaling'', S '': '', S ''Applied '', S ''StandardScaler''])]"
proof -
  let ?w = "init zscore_config [] :: nat world"
  have h1: "scaling_method (preprocessing (config ?w)) = ''zscore''"
    by (simp add: init_def zscore_config_def)
  have h2: "''zscore'' \<noteq> ''standard''" "''zscore'' \<noteq> ''robust''" "''zscore'' \<noteq> ''minmax''"
    by simp_all
  have h3: "scaler_fit_transform stub_library StandardScaler skewed_array = Inr (skewed_array, 2)"
    by (simp add: stub_library_def)
  from unknown_scaling_falls_back [OF h1 h2 h3] h1 h2 h3
  show ?thesis by (simp add: init_def)
qed

section \<open>Component count\<close>







section \<open>Transforming new data\<close>

lemma frozen_return: "frozen (py_return x)"
  and frozen_raise: "frozen (py_raise e)"
  and frozen_lift: "frozen (py_lift r)"
  and frozen_get_config: "frozen get_config"
  and frozen_deref: "frozen (deref r')"
  and frozen_copy: "frozen (copy r')"
  and frozen_modify: "frozen (modify r' g')"
  and frozen_log_step: "frozen (log_step stp det)"
  and frozen_logger_info: "frozen (logger_info msg)"
  and frozen_logger_warning: "frozen (logger_warning msg)"
  and frozen_read: "frozen (\<lambda>w. (w, Inr (g w)))"
  by (simp_all add: frozen_def same_self_def py_defs)

lemma frozen_bind: "frozen m \<Longrightarrow> (\<And>x. frozen (f x)) \<Longrightarrow> frozen (py_bind m f)"
  unfolding frozen_def py_bind_def
  apply (intro allI)
  subgoal for w
    apply (cases "m w")
    subgoal for w1 res
      apply (cases res)
       apply (drule spec [of _ w], simp)
      apply (drule spec [of _ w])
      apply (drule_tac x = "projr res" in meta_spec)
      apply (drule spec [of _ w1])
      apply (auto simp: same_self_def)
      done
    done
  done

lemma frozen_seq: "frozen m \<Longrightarrow> frozen k \<Longrightarrow> frozen (py_seq m k)"
  by (simp add: py_seq_def frozen_bind)

lemma frozen_if: "frozen a \<Longrightarrow> frozen b \<Longrightarrow> frozen (if c then a else b)"
  by simp

lemma frozen_case_prod: "(\<And>a b. frozen (f a b)) \<Longrightarrow> frozen (case x of (a, b) \<Rightarrow> f a b)"
  by (cases x) simp

lemma frozen_case_option:
  "frozen a \<Longrightarrow> (\<And>x. frozen (f x)) \<Longrightarrow> frozen (case opt of None \<Rightarrow> a | Some x \<Rightarrow> f x)"
  by (cases opt) simp_all

lemmas frozen_intros = frozen_return frozen_raise frozen_lift frozen_get_config frozen_deref
  frozen_copy frozen_modify frozen_log_step frozen_logger_info frozen_logger_warning frozen_read
  frozen_seq frozen_bind frozen_if frozen_case_prod frozen_case_option

lemma frozen_impute_loop: "frozen (impute_loop lib fill strategy r cs info)"
  by (induction cs arbitrary: info) (auto intro!: frozen_intros simp: Let_def)

lemma frozen_identify_feature_types: "frozen (identify_feature_types df)"
  unfolding identify_feature_types_def Let_def by (intro frozen_intros)

lemma frozen_handle_missing_values: "frozen (handle_missing_values lib df feature_types)"
  unfolding handle_missing_values_def Let_def
  by (intro frozen_intros frozen_impute_loop)

lemma frozen_transform: "frozen (transform lib df)"
  unfolding transform_def Let_def
  by (intro frozen_intros frozen_identify_feature_types frozen_handle_missing_values)

lemma identify_same: "identify_feature_types df w = (w', r) \<Longrightarrow> same_self w w'"
  using frozen_identify_feature_types [of df] by (auto simp: frozen_def dest: spec [of _ w])

lemma handle_same: "handle_missing_values lib df ft w = (w', r) \<Longrightarrow> same_self w w'"
  using frozen_handle_missing_values [of lib df ft] by (auto simp: frozen_def dest: spec [of _ w])

lemma getitem_label: "getitem d n = Inr c \<Longrightarrow> label c = n"
  by (auto simp: getitem_def find_Some_iff split: option.splits)

lemma getitems_cols_labels: "getitems_cols d names = Inr cs \<Longrightarrow> map label cs = names"
  by (induction names arbitrary: cs) (auto split: sum.splits dest: getitem_label)

lemma getitems_labels: "getitems d names = Inr sub \<Longrightarrow> map label (columns sub) = names"
  by (auto simp: getitems_def split: sum.splits dest: getitems_cols_labels)

lemma DataFrame_labels: "DataFrame X names idx = Inr fr \<Longrightarrow> map label (columns fr) = names"
  by (auto simp: DataFrame_def comp_def split: if_splits intro: nth_equalityI)

lemma transform_keys:
  assumes "transform lib df w = (w', Inr results)"
  shows "map fst results =
     (if pca w = None then [''scaled'', ''combined''] else [''scaled'', ''combined'', ''pca''])"
  using assms
  by (auto simp: transform_def py_bind_def py_seq_def py_return_def py_raise_def py_lift_def
      logger_info_def deref_def Let_def same_self_def
      split: if_splits sum.splits prod.splits option.splits
      dest!: identify_same handle_same)



text \<open>
  What a returning \<^verbatim>\<open>transform\<close> has computed, read off the pipeline as the call leaves it.
\<close>

lemma transform_inversion:
  assumes "transform lib df w = (w', Inr results)"
  shows "fitted w \<and>
    (\<exists>w1 feature_types df_clean numerical combined numerical_frame X_numerical X_scaled
        X_combined scaled_frame combined_frame.
        identify_feature_types df
          (w\<lparr>logger := logger w @ [(INFO, [S ''Transforming new data using fitted pipeline''])]\<rparr>) =
          (w1, Inr feature_types) \<and>
        handle_missing_values lib df feature_types w1 = (w', Inr df_clean) \<and>
        dict_get (self_feature_names w') ''numerical'' = Inr numerical \<and>
        getitems (heap w' ! df_clean) numerical = Inr numerical_frame \<and>
        (case power_transformer w' of
           None \<Rightarrow> X_numerical = values_of numerical_frame
         | Some (cls, params) \<Rightarrow>
             PowerTransformer_transform lib params (values_of numerical_frame) = Inr X_numerical) \<and>
        (\<exists>fitted_scaler. scaler w' = Some fitted_scaler \<and>
           scaler_transform lib fitted_scaler X_numerical = Inr X_scaled) \<and>
        (case categorical_encoder w' of
           None \<Rightarrow> X_combined = X_scaled
         | Some (cls, params) \<Rightarrow>
             (\<exists>categorical categorical_frame X_categorical.
                dict_get (self_feature_names w') ''categorical'' = Inr categorical \<and>
                getitems (heap w' ! df_clean) categorical = Inr categorical_frame \<and>
                OneHotEncoder_transform lib params categorical_frame = Inr X_categorical \<and>
                hstack X_scaled X_categorical = Inr X_combined)) \<and>
        dict_get (self_feature_names w') ''combined'' = Inr combined \<and>
        DataFrame X_scaled numerical (index (heap w' ! df_clean)) = Inr scaled_frame \<and>
        DataFrame X_combined combined (index (heap w' ! df_clean)) = Inr combined_frame \<and>
        (case pca w' of
           None \<Rightarrow> results = [(''scaled'', scaled_frame), (''combined'', combined_frame)]
         | Some (cls, params) \<Rightarrow>
             (\<exists>X_pca pca_frame.
                PCA_transform lib params X_combined = Inr X_pca \<and>
                DataFrame X_pca (numbered ''PCA_'' (length (cols X_pca)))
                  (index (heap w' ! df_clean)) = Inr pca_frame \<and>
                results = [(''scaled'', scaled_frame), (''combined'', combined_frame),
                           (''pca'', pca_frame)])))"
  using assms
  apply (simp add: transform_def py_bind_def py_seq_def py_return_def py_raise_def py_lift_def
      logger_info_def deref_def Let_def
      split: if_splits sum.splits prod.splits option.splits)
  apply auto
  done


lemma numerical_fill_value_tsne:
  "numerical_fill_value (lib\<lparr>TSNE_fit_transform := g\<rparr>) = numerical_fill_value lib"
  by (intro ext) (simp add: numerical_fill_value_def mode_or_def)

lemma categorical_fill_value_tsne:
  "categorical_fill_value (lib\<lparr>TSNE_fit_transform := g\<rparr>) = categorical_fill_value lib"
  by (intro ext) (simp add: categorical_fill_value_def mode_or_def)

lemma fill_error_tsne: "fill_error (lib\<lparr>TSNE_fit_transform := g\<rparr>) = fill_error lib"
  by (intro ext) (simp add: fill_error_def split: dtype.splits)

lemma fill_column_tsne: "fill_column (lib\<lparr>TSNE_fit_transform := g\<rparr>) = fill_column lib"
  by (intro ext) (simp add: fill_column_def split: dtype.splits)

lemma fillna_inplace_tsne:
  "fillna_inplace (lib\<lparr>TSNE_fit_transform := g\<rparr>) = fillna_inplace lib"
  by (intro ext)
    (simp add: fillna_inplace_def fill_error_tsne fill_column_tsne
      cong: sum.case_cong option.case_cong if_cong)

lemma impute_loop_tsne:
  "impute_loop (lib\<lparr>TSNE_fit_transform := g\<rparr>) fill strategy r cs info =
   impute_loop lib fill strategy r cs info"
  by (induction cs arbitrary: info) (simp_all add: fillna_inplace_tsne)

lemma handle_missing_values_tsne:
  "handle_missing_values (lib\<lparr>TSNE_fit_transform := g\<rparr>) = handle_missing_values lib"
  by (intro ext)
    (simp add: handle_missing_values_def numerical_fill_value_tsne categorical_fill_value_tsne
      impute_loop_tsne Let_def cong: if_cong)

lemma transform_tsne: "transform (lib\<lparr>TSNE_fit_transform := g\<rparr>) df = transform lib df"
  by (simp add: transform_def handle_missing_values_tsne Let_def
      cong: if_cong option.case_cong prod.case_cong)

lemma transform_same: "same_self w (fst (transform lib df w))"
  using frozen_transform [of lib df] by (simp add: frozen_def)

lemmas stage_defs = identify_feature_types_def handle_missing_values_def
  apply_power_transformation_def apply_scaling_def encode_categorical_features_def
  apply_dimensionality_reduction_def apply_pca_stage_def apply_tsne_stage_def
  numerical_fill_value_def categorical_fill_value_def high_skew_def class_name_def
  choose_n_comp_def argmax_def mode_or_def fill_error_def

lemmas frame_defs = isnull_sum_def total_missing_def fillna_def getitem_def getitems_def
  values_of_def empty_array_def column_of_def hstack_def DataFrame_def setitem_def
  fillna_inplace_def fill_column_def numbered_def digit_char_def dict_get_def add_columns_def add_if_present_def

lemmas sample_defs = sample_world_def init_def default_config_def sample_frame_def
  stub_library_def first_present_def present_def halved_def indicators_def

lemma fit_reaches_fitted_world:
  "\<exists>lg lgr h. fst (fit_transform stub_library 0 sample_world) =
      fitted_world\<lparr>preprocessing_log := lg, logger := lgr, heap := h\<rparr>"
  apply (intro exI)
  apply (simp add: fit_transform_def py_defs stage_defs frame_defs sample_defs Let_def upt_conv_Cons
      fitted_world_def del: upt_Suc)
  done

lemma transform_new_frame:
  "transform stub_library 0 fitted_world =
     (fitted_world
        \<lparr>preprocessing_log :=
           [\<lparr>step = ''Feature Identification'',
             details = [S ''Numerical: '', N 2, S '', Categorical: '', N 1]\<rparr>,
            \<lparr>step = ''Missing Values Detection'',
             details = [S ''Found missing values in '', N 1, S '' features'']\<rparr>,
            \<lparr>step = ''Missing Values Handling'',
             details = [S ''Imputed '', N 1, S '' features: '', L [''Extra'']]\<rparr>],
         heap :=
           [new_frame,
            \<lparr>index = [0, 1],
             columns =
               [\<lparr>label = ''Revenue'', dtype = Number ''float64'', cells = [Some (Num 7), Some (Num 9)]\<rparr>,
                \<lparr>label = ''Industry'', dtype = Object,
                 cells = [Some (Str ''Energy''), Some (Str ''Finance'')]\<rparr>,
                \<lparr>label = ''Extra'', dtype = Number ''float64'', cells = [Some (Num 4), Some (Num 4)]\<rparr>]\<rparr>],
         logger :=
           [(INFO, [S ''ESG Preprocessing Pipeline initialized'']),
            (INFO, [S ''Transforming new data using fitted pipeline'']),
            (INFO, [S ''Feature Identification'', S '': '', S ''Numerical: '', N 2,
                    S '', Categorical: '', N 1]),
            (INFO, [S ''Missing Values Detection'', S '': '', S ''Found missing values in '',
                    N 1, S '' features'']),
            (INFO, [S ''Missing Values Handling'', S '': '', S ''Imputed '', N 1,
                    S '' features: '', L [''Extra'']])]\<rparr>,
      Inr [(''scaled'',
            \<lparr>index = [0, 1],
             columns =
               [\<lparr>label = ''Revenue'', dtype = Number ''float64'', cells = [Some (Num 7), Some (Num 9)]\<rparr>]\<rparr>),
           (''combined'',
            \<lparr>index = [0, 1],
             columns =
               [\<lparr>label = ''Revenue'', dtype = Number ''float64'', cells = [Some (Num 7), Some (Num 9)]\<rparr>,
                \<lparr>label = ''Industry'', dtype = Number ''float64'', cells = [Some (Num 1), Some (Num 1)]\<rparr>]\<rparr>),
           (''pca'',
            \<lparr>index = [0, 1],
             columns =
               [\<lparr>label = ''PCA_1'', dtype = Number ''float64'', cells = [Some (Num 7), Some (Num 9)]\<rparr>,
                \<lparr>label = ''PCA_2'', dtype = Number ''float64'', cells = [Some (Num 1), Some (Num 1)]\<rparr>]\<rparr>)])"
  by (simp add: transform_def py_defs stage_defs frame_defs sample_defs Let_def upt_conv_Cons
      fitted_world_def new_frame_def del: upt_Suc)

lemma transform_new_frame_cow:
  "last (preprocessing_log (fst (transform cow_library 0 fitted_world))) =
     \<lparr>step = ''Missing Values Handling'',
      details = [S ''Imputed '', N 1, S '' features: '', L [''Extra'']]\<rparr>"
  by (simp add: transform_def py_defs stage_defs frame_defs sample_defs Let_def upt_conv_Cons
      fitted_world_def new_frame_def cow_library_def del: upt_Suc)

text \<open>
  C6. Whenever \<^verbatim>\<open>transform\<close> returns, the keys of its result are \<^verbatim>\<open>scaled\<close> and
  \<^verbatim>\<open>combined\<close>, in that order, followed by \<^verbatim>\<open>pca\<close> exactly when the pipeline holds a fitted
  projection; none of \<^verbatim>\<open>complete\<close>, \<^verbatim>\<open>categorical_encoded\<close>, \<^verbatim>\<open>power_transformed\<close> and
  \<^verbatim>\<open>tsne\<close> is a key. The visualization embedding is not invoked: the stored embedding is
  left as it is, and the call does not depend on the library's embedding at all.
\<close>

theorem transform_variants:
  assumes "transform lib df w = (w', Inr results)"
  shows "map fst results =
       (if pca w = None then [''scaled'', ''combined''] else [''scaled'', ''combined'', ''pca'']) \<and>
     set (map fst results) \<inter>
       {''complete'', ''categorical_encoded'', ''power_transformed'', ''tsne''} = {} \<and>
     tsne w' = tsne w \<and>
     transform (lib\<lparr>TSNE_fit_transform := tsne_call\<rparr>) df w = transform lib df w"
proof -
  have k: "map fst results =
       (if pca w = None then [''scaled'', ''combined''] else [''scaled'', ''combined'', ''pca''])"
    using transform_keys [OF assms] .
  have t: "tsne w' = tsne w"
    using transform_same [of w lib df] assms by (simp add: same_self_def)
  show ?thesis using k t by (simp add: transform_tsne)
qed

theorem transform_variants_witness:
  "pca fitted_world \<noteq> None \<and>
   map fst (projr (snd (transform stub_library 0 fitted_world))) =
     [''scaled'', ''combined'', ''pca''] \<and>
   tsne (fst (transform stub_library 0 fitted_world)) = tsne fitted_world"
proof -
  obtain w' results where t: "transform stub_library 0 fitted_world = (w', Inr results)"
    using transform_new_frame by blast
  have p: "pca fitted_world \<noteq> None" by (simp add: fitted_world_def)
  from transform_variants [OF t] p show ?thesis by (simp add: t)
qed

text \<open>
  C1, as stated, fails for imputation: in \<^verbatim>\<open>transform\<close> the imputation follows a fresh
  classification of the new dataset. On the pipeline fitted with numerical columns
  \<^verbatim>\<open>Revenue\<close> and categorical columns \<^verbatim>\<open>Industry\<close>, a new dataset with a further numerical
  column \<^verbatim>\<open>Extra\<close> has that column imputed, and the log records it; with copy-on-write
  the fill does not reach the cleaned dataset, and the log records the column all the same.
\<close>

theorem transform_imputes_by_fresh_classification_counterexample:
  "fitted fitted_world \<and>
   dict_get (self_feature_names fitted_world) ''numerical'' = Inr [''Revenue''] \<and>
   dict_get (self_feature_names fitted_world) ''categorical'' = Inr [''Industry''] \<and>
   getitem (heap fitted_world ! 0) ''Extra'' =
     Inr \<lparr>label = ''Extra'', dtype = Number ''float64'', cells = [None, Some (Num 4)]\<rparr> \<and>
   getitem (heap (fst (transform stub_library 0 fitted_world)) ! 1) ''Extra'' =
     Inr \<lparr>label = ''Extra'', dtype = Number ''float64'', cells = [Some (Num 4), Some (Num 4)]\<rparr> \<and>
   last (preprocessing_log (fst (transform stub_library 0 fitted_world))) =
     \<lparr>step = ''Missing Values Handling'',
      details = [S ''Imputed '', N 1, S '' features: '', L [''Extra'']]\<rparr> \<and>
   last (preprocessing_log (fst (transform cow_library 0 fitted_world))) =
     \<lparr>step = ''Missing Values Handling'',
      details = [S ''Imputed '', N 1, S '' features: '', L [''Extra'']]\<rparr>"
  by (simp add: transform_new_frame transform_new_frame_cow)
    (simp add: fitted_world_def new_frame_def dict_get_def getitem_def)

text \<open>
  C1, amended. Whenever \<^verbatim>\<open>transform\<close> returns, every attribute of the pipeline other than
  the processing log is what it was, the feature-name lists among them, and the result is
  computed from the cleaned dataset as follows. The stored \<^verbatim>\<open>numerical\<close> columns are
  selected, in the stored order; the stored power transformer, if there is one, and then the
  stored scaler are applied to their values; a stored encoder is applied to the stored
  \<^verbatim>\<open>categorical\<close> columns, selected in the stored order, and its output is appended to the
  scaled array; the \<^verbatim>\<open>scaled\<close> and \<^verbatim>\<open>combined\<close> variants are these arrays under the stored
  \<^verbatim>\<open>numerical\<close> and \<^verbatim>\<open>combined\<close> names; and a stored projection is applied to the combined
  array. No column outside the stored lists enters the result. The cleaned dataset, however,
  is the result of the imputation stage run with the feature types identified afresh on the
  new dataset.
\<close>

theorem transform_uses_fitted_lists:
  assumes "transform lib df w = (w', Inr results)"
  shows "same_self w w' \<and>
    (\<exists>w1 feature_types df_clean numerical combined numerical_frame X_numerical X_scaled
        X_combined scaled_frame combined_frame.
        identify_feature_types df
          (w\<lparr>logger := logger w @ [(INFO, [S ''Transforming new data using fitted pipeline''])]\<rparr>) =
          (w1, Inr feature_types) \<and>
        handle_missing_values lib df feature_types w1 = (w', Inr df_clean) \<and>
        dict_get (self_feature_names w) ''numerical'' = Inr numerical \<and>
        getitems (heap w' ! df_clean) numerical = Inr numerical_frame \<and>
        map label (columns numerical_frame) = numerical \<and>
        (case power_transformer w of
           None \<Rightarrow> X_numerical = values_of numerical_frame
         | Some (cls, params) \<Rightarrow>
             PowerTransformer_transform lib params (values_of numerical_frame) = Inr X_numerical) \<and>
        (\<exists>fitted_scaler. scaler w = Some fitted_scaler \<and>
           scaler_transform lib fitted_scaler X_numerical = Inr X_scaled) \<and>
        (case categorical_encoder w of
           None \<Rightarrow> X_combined = X_scaled
         | Some (cls, params) \<Rightarrow>
             (\<exists>categorical categorical_frame X_categorical.
                dict_get (self_feature_names w) ''categorical'' = Inr categorical \<and>
                getitems (heap w' ! df_clean) categorical = Inr categorical_frame \<and>
                map label (columns categorical_frame) = categorical \<and>
                OneHotEncoder_transform lib params categorical_frame = Inr X_categorical \<and>
                hstack X_scaled X_categorical = Inr X_combined)) \<and>
        dict_get (self_feature_names w) ''combined'' = Inr combined \<and>
        DataFrame X_scaled numerical (index (heap w' ! df_clean)) = Inr scaled_frame \<and>
        map label (columns scaled_frame) = numerical \<and>
        DataFrame X_combined combined (index (heap w' ! df_clean)) = Inr combined_frame \<and>
        map label (columns combined_frame) = combined \<and>
        (case pca w of
           None \<Rightarrow> results = [(''scaled'', scaled_frame), (''combined'', combined_frame)]
         | Some (cls, params) \<Rightarrow>
             (\<exists>X_pca pca_frame.
                PCA_transform lib params X_combined = Inr X_pca \<and>
                DataFrame X_pca (numbered ''PCA_'' (length (cols X_pca)))
                  (index (heap w' ! df_clean)) = Inr pca_frame \<and>
                results = [(''scaled'', scaled_frame), (''combined'', combined_frame),
                           (''pca'', pca_frame)])))"
proof -
  have s: "same_self w w'"
    using transform_same [of w lib df] assms by simp
  then have e: "self_feature_names w' = self_feature_names w"
    "power_transformer w' = power_transformer w" "scaler w' = scaler w"
    "categorical_encoder w' = categorical_encoder w" "pca w' = pca w"
    by (simp_all add: same_self_def)
  from transform_inversion [OF assms]
  obtain w1 feature_types df_clean numerical combined numerical_frame X_numerical X_scaled
    X_combined scaled_frame combined_frame
    where a: "identify_feature_types df
          (w\<lparr>logger := logger w @ [(INFO, [S ''Transforming new data using fitted pipeline''])]\<rparr>) =
          (w1, Inr feature_types)"
      "handle_missing_values lib df feature_types w1 = (w', Inr df_clean)"
      "dict_get (self_feature_names w) ''numerical'' = Inr numerical"
      "getitems (heap w' ! df_clean) numerical = Inr numerical_frame"
      "case power_transformer w of
           None \<Rightarrow> X_numerical = values_of numerical_frame
         | Some (cls, params) \<Rightarrow>
             PowerTransformer_transform lib params (values_of numerical_frame) = Inr X_numerical"
      "\<exists>fitted_scaler. scaler w = Some fitted_scaler \<and>
           scaler_transform lib fitted_scaler X_numerical = Inr X_scaled"
    and c: "case categorical_encoder w of
           None \<Rightarrow> X_combined = X_scaled
         | Some (cls, params) \<Rightarrow>
             (\<exists>categorical categorical_frame X_categorical.
                dict_get (self_feature_names w) ''categorical'' = Inr categorical \<and>
                getitems (heap w' ! df_clean) categorical = Inr categorical_frame \<and>
                OneHotEncoder_transform lib params categorical_frame = Inr X_categorical \<and>
                hstack X_scaled X_categorical = Inr X_combined)"
    and b: "dict_get (self_feature_names w) ''combined'' = Inr combined"
      "DataFrame X_scaled numerical (index (heap w' ! df_clean)) = Inr scaled_frame"
      "DataFrame X_combined combined (index (heap w' ! df_clean)) = Inr combined_frame"
      "case pca w of
           None \<Rightarrow> results = [(''scaled'', scaled_frame), (''combined'', combined_frame)]
         | Some (cls, params) \<Rightarrow>
             (\<exists>X_pca pca_frame.
                PCA_transform lib params X_combined = Inr X_pca \<and>
                DataFrame X_pca (numbered ''PCA_'' (length (cols X_pca)))
                  (index (heap w' ! df_clean)) = Inr pca_frame \<and>
                results = [(''scaled'', scaled_frame), (''combined'', combined_frame),
                           (''pca'', pca_frame)])"
    unfolding e by blast
  have l: "map label (columns numerical_frame) = numerical"
    "map label (columns scaled_frame) = numerical"
    "map label (columns combined_frame) = combined"
    using getitems_labels [OF a(4)] DataFrame_labels [OF b(2)] DataFrame_labels [OF b(3)]
    by simp_all
  have c': "case categorical_encoder w of
           None \<Rightarrow> X_combined = X_scaled
         | Some (cls, params) \<Rightarrow>
             (\<exists>categorical categorical_frame X_categorical.
                dict_get (self_feature_names w) ''categorical'' = Inr categorical \<and>
                getitems (heap w' ! df_clean) categorical = Inr categorical_frame \<and>
                map label (columns categorical_frame) = categorical \<and>
                OneHotEncoder_transform lib params categorical_frame = Inr X_categorical \<and>
                hstack X_scaled X_categorical = Inr X_combined)"
    using c getitems_labels by (fastforce split: option.splits)
  from s a c' b l show ?thesis by blast
qed

theorem transform_uses_fitted_lists_witness:
  "dict_get (self_feature_names fitted_world) ''numerical'' = Inr [''Revenue''] \<and>
   dict_get (self_feature_names fitted_world) ''categorical'' = Inr [''Industry''] \<and>
   dict_get (self_feature_names fitted_world) ''combined'' = Inr [''Revenue'', ''Industry''] \<and>
   same_self fitted_world (fst (transform stub_library 0 fitted_world)) \<and>
   (\<exists>df_clean numerical_frame X_numerical X_scaled categorical_frame X_categorical X_combined
       scaled_frame combined_frame.
      getitems (heap (fst (transform stub_library 0 fitted_world)) ! df_clean) [''Revenue''] =
        Inr numerical_frame \<and>
      PowerTransformer_transform stub_library 1 (values_of numerical_frame) = Inr X_numerical \<and>
      scaler_transform stub_library (StandardScaler, 2) X_numerical = Inr X_scaled \<and>
      getitems (heap (fst (transform stub_library 0 fitted_world)) ! df_clean) [''Industry''] =
        Inr categorical_frame \<and>
      OneHotEncoder_transform stub_library 3 categorical_frame = Inr X_categorical \<and>
      hstack X_scaled X_categorical = Inr X_combined \<and>
      DataFrame X_scaled [''Revenue'']
        (index (heap (fst (transform stub_library 0 fitted_world)) ! df_clean)) = Inr scaled_frame \<and>
      DataFrame X_combined [''Revenue'', ''Industry'']
        (index (heap (fst (transform stub_library 0 fitted_world)) ! df_clean)) =
        Inr combined_frame \<and>
      map_of (projr (snd (transform stub_library 0 fitted_world))) ''scaled'' = Some scaled_frame \<and>
      map_of (projr (snd (transform stub_library 0 fitted_world))) ''combined'' =
        Some combined_frame)"
proof -
  obtain w' results where t: "transform stub_library 0 fitted_world = (w', Inr results)"
    using transform_new_frame by blast
  have n: "dict_get (self_feature_names fitted_world) ''numerical'' = Inr [''Revenue'']"
    and c: "dict_get (self_feature_names fitted_world) ''categorical'' = Inr [''Industry'']"
    and b: "dict_get (self_feature_names fitted_world) ''combined'' = Inr [''Revenue'', ''Industry'']"
    by (simp_all add: fitted_world_def dict_get_def)
  have e: "power_transformer fitted_world = Some (PowerTransformer, 1)"
    "scaler fitted_world = Some (StandardScaler, 2)"
    "categorical_encoder fitted_world = Some (OneHotEncoder, 3)"
    "pca fitted_world = Some (PCA, 5)"
    by (simp_all add: fitted_world_def)
  from transform_uses_fitted_lists [OF t] show ?thesis
    by (clarsimp simp: e t n c b) blast
qed

end
